theory Spec2Isabelle
  imports
    Complex_Main
    "HOL-Library.AList"
    "HOL-Library.Char_ord"
    "HOL-Library.List_Lexorder"
    "HOL-Library.Product_Lexorder"
begin

section \<open>Python floats\<close>

text \<open>
  A Python float is an IEEE-754 binary64 value. A finite non-zero value is kept as the
  rational number it denotes; the two zeros, the two infinities and not-a-number are
  separate constructors (\<open>Finite 0\<close> is \<open>+0.0\<close>).
\<close>

datatype pyfloat = Finite rat | NegZero | PosInf | NegInf | NaN

definition round_half_even :: "rat \<Rightarrow> int" where
  "round_half_even x =
     (let f = \<lfloor>x\<rfloor>; r = x - of_int f
      in if r < 1 / 2 then f else if 1 / 2 < r then f + 1
         else if even f then f else f + 1)"

definition pow2 :: "int \<Rightarrow> rat" where
  "pow2 e = (if 0 \<le> e then 2 ^ nat e else 1 / 2 ^ nat (- e))"

text \<open>The number of binary digits of a positive integer.\<close>

function bit_length :: "int \<Rightarrow> int" where
  "bit_length a = (if a \<le> 0 then 0 else 1 + bit_length (a div 2))"
  by pat_completeness auto
termination
  by (relation "measure nat") auto

declare bit_length.simps [simp del]

text \<open>
  \<open>ilog2 q\<close> is the binary exponent of a positive rational: \<open>2^e \<le> q < 2^(e+1)\<close>.
  Below one the digits of \<open>\<lfloor>1 / q\<rfloor>\<close> give the exponent up to the case that \<open>q\<close> is
  itself a power of two.
\<close>

definition ilog2 :: "rat \<Rightarrow> int" where
  "ilog2 q =
     (let k = (if 1 \<le> q then bit_length \<lfloor>q\<rfloor> - 1 else - bit_length \<lfloor>1 / q\<rfloor>)
      in if pow2 (k + 1) \<le> q then k + 1 else k)"

text \<open>
  \<open>binary64 neg q\<close> rounds the magnitude \<open>q \<ge> 0\<close> to the nearest binary64 value
  (53 significant bits, ties to even, subnormals below \<open>2^-1022\<close>, overflow to infinity)
  and attaches the sign.
\<close>

definition binary64 :: "bool \<Rightarrow> rat \<Rightarrow> pyfloat" where
  "binary64 neg q =
     (if q = 0 then (if neg then NegZero else Finite 0)
      else
        let e = max (ilog2 q) (- 1022);
            ulp = pow2 (e - 52);
            r = of_int (round_half_even (q / ulp)) * ulp
        in if r = 0 then (if neg then NegZero else Finite 0)
           else if pow2 1024 \<le> r then (if neg then NegInf else PosInf)
           else Finite (if neg then - r else r))"

text \<open>The float written as a decimal literal, e.g. \<open>0.4567\<close> is \<open>float_of (4567 / 10000)\<close>.\<close>

definition float_of :: "rat \<Rightarrow> pyfloat" where
  "float_of q = binary64 (q < 0) \<bar>q\<bar>"

fun is_neg :: "pyfloat \<Rightarrow> bool" where
  "is_neg (Finite q) = (q < 0)"
| "is_neg NegZero = True"
| "is_neg NegInf = True"
| "is_neg PosInf = False"
| "is_neg NaN = False"

fun is_inf :: "pyfloat \<Rightarrow> bool" where
  "is_inf PosInf = True"
| "is_inf NegInf = True"
| "is_inf _ = False"

fun magnitude :: "pyfloat \<Rightarrow> rat" where
  "magnitude (Finite q) = \<bar>q\<bar>"
| "magnitude _ = 0"

text \<open>Float multiplication \<open>x * y\<close>: never raises, overflows to an infinity.\<close>

definition py_mul :: "pyfloat \<Rightarrow> pyfloat \<Rightarrow> pyfloat" where
  "py_mul x y =
     (if x = NaN \<or> y = NaN then NaN
      else if is_inf x \<or> is_inf y then
        (if (\<not> is_inf x \<and> magnitude x = 0) \<or> (\<not> is_inf y \<and> magnitude y = 0) then NaN
         else if is_neg x \<noteq> is_neg y then NegInf else PosInf)
      else binary64 (is_neg x \<noteq> is_neg y) (magnitude x * magnitude y))"

text \<open>
  \<open>round(x, 2)\<close>: infinities and not-a-number round to themselves; a finite value goes
  to the correctly rounded two-place decimal (ties to even on the exact value), which
  is then read back as a float.
\<close>

definition py_round2 :: "pyfloat \<Rightarrow> pyfloat" where
  "py_round2 x =
     (case x of
        Finite q \<Rightarrow> binary64 (q < 0) (of_int (round_half_even (\<bar>q\<bar> * 100)) / 100)
      | _ \<Rightarrow> x)"

text \<open>\<open>x == x\<close> is false exactly for not-a-number.\<close>

definition py_eq_self :: "pyfloat \<Rightarrow> bool" where
  "py_eq_self x = (x \<noteq> NaN)"

subsection \<open>Formatting\<close>

text \<open>The character of a decimal digit \<open>0 \<le> d < 10\<close>.\<close>

definition digit_char :: "int \<Rightarrow> char" where
  "digit_char d = ''0123456789'' ! nat d"

text \<open>\<open>str(n)\<close> for a Python integer.\<close>

function str_digits :: "int \<Rightarrow> string" where
  "str_digits n = (if n < 10 then [digit_char n] else str_digits (n div 10) @ [digit_char (n mod 10)])"
  by pat_completeness auto
termination
  by (relation "measure nat") auto

declare str_digits.simps [simp del]

definition str_int :: "int \<Rightarrow> string" where
  "str_int n = (if n < 0 then ''-'' @ str_digits (- n) else str_digits n)"

text \<open>\<open>'%.2f' % x\<close>, which is also \<open>format(x, '.2f')\<close>.\<close>

definition fmt_2f :: "pyfloat \<Rightarrow> string" where
  "fmt_2f x =
     (case x of
        Finite q \<Rightarrow>
          (let d = round_half_even (\<bar>q\<bar> * 100)
           in (if q < 0 then ''-'' else []) @ str_digits (d div 100) @ ''.''
              @ [digit_char (d mod 100 div 10), digit_char (d mod 10)])
      | NegZero \<Rightarrow> ''-0.00''
      | PosInf \<Rightarrow> ''inf''
      | NegInf \<Rightarrow> ''-inf''
      | NaN \<Rightarrow> ''nan'')"

text \<open>Padding to a minimum width: numbers are right-aligned, strings left-aligned.\<close>

definition rjust :: "nat \<Rightarrow> string \<Rightarrow> string" where
  "rjust w s = replicate (w - length s) (CHR '' '') @ s"

definition ljust :: "nat \<Rightarrow> string \<Rightarrow> string" where
  "ljust w s = s @ replicate (w - length s) (CHR '' '')"

section \<open>The upstream services\<close>

text \<open>
  The exceptions that reach the program from its two clients, each with what \<open>str(e)\<close>
  gives. The metrics client raises a \<open>GoogleAPICallError\<close> for an answer of the service
  that is an error, and a \<open>RetryError\<close>, which is not a \<open>GoogleAPICallError\<close>, when
  its retries run out. The inventory client raises an \<open>HttpError\<close> for an error answer, and
  a \<open>TypeError\<close> when an argument of a call does not have the form the interface
  description of the service asks for.
\<close>

datatype error =
  GoogleAPICallError string
| RetryError string
| HttpError string
| TypeError string

text \<open>A call returns a value, raises, or never returns.\<close>

datatype 'a outcome = Returns 'a | Raises error | Hangs

text \<open>
  A time series of the metrics service: the label map of its resource and the
  \<open>double_value\<close> of each of its points, in the order the service sends them.
\<close>

record time_series =
  labels :: "(string \<times> string) list"
  points :: "pyfloat list"

datatype aligner = ALIGN_MEAN
datatype reducer = REDUCE_MEAN
datatype series_view = FULL

record aggregation =
  alignment_period :: int
  per_series_aligner :: aligner
  cross_series_reducer :: "reducer option"

record list_time_series_request =
  req_name :: string
  req_filter :: string
  req_interval :: "int \<times> int"
  req_view :: series_view
  req_aggregation :: aggregation

text \<open>
  An instance resource of the inventory service. The name is the identifier of the
  resource and always there; the other keys are read with \<open>.get\<close>, \<open>None\<close> standing for
  a missing key.
\<close>

record vm_instance =
  instance_name :: string
  instance_zone :: "string option"
  instance_machineType :: "string option"
  instance_id :: "string option"
  instance_status :: "string option"

text \<open>
  One page of the aggregated listing: \<open>items\<close> maps a zone key to its scoped list, of
  which only the \<open>instances\<close> entry is read.
\<close>

record page =
  items :: "(string \<times> vm_instance list option) list option"
  nextPageToken :: "string option"

text \<open>
  The world the program runs in. \<open>Inl e\<close> is a call that raises \<open>e\<close>.
  \<^item> \<open>utcnow\<close>: the clock, in microseconds since the epoch, at its n-th reading.
  \<^item> \<open>list_time_series\<close>: what the metrics client gives for a request.
  \<^item> \<open>aggregatedList\<close>: for a project id, either the error the inventory client raises
    before any request is sent (\<open>aggregatedList(project=...)\<close> checks the form of the
    id), or the responses of the service to the request and its continuations, one per
    \<open>execute()\<close>.
\<close>

record world =
  utcnow :: "nat \<Rightarrow> int"
  list_time_series :: "list_time_series_request \<Rightarrow> error + time_series list"
  aggregatedList :: "string \<Rightarrow> error + (error + page) list"

text \<open>
  The state the program changes: how often the clock has been read, and the lines printed
  to standard output.
\<close>

record state =
  clock_reads :: nat
  stdout :: "string list"

section \<open>health\_agent.py\<close>

definition ALIGN_SECONDS :: int where
  "ALIGN_SECONDS = 600"

definition now_interval :: "world \<Rightarrow> int \<Rightarrow> state \<Rightarrow> (int \<times> int) \<times> state" where
  "now_interval w seconds s =
     (let now = utcnow w (clock_reads s);
          start = now - seconds * 1000000
      in ((start, now), s\<lparr>clock_reads := Suc (clock_reads s)\<rparr>))"

text \<open>
  \<open>int(t.timestamp())\<close>: for a time with a time zone, \<open>timestamp()\<close> divides the
  microseconds since the epoch by \<open>10^6\<close> as a float, which is the float nearest to the
  quotient; \<open>int\<close> truncates it towards zero. (A time is a date up to the year 9999, so
  the float is finite.)
\<close>

definition int_timestamp :: "int \<Rightarrow> int" where
  "int_timestamp t =
     (case float_of (of_int t / 1000000) of
        Finite q \<Rightarrow> (if 0 \<le> q then \<lfloor>q\<rfloor> else - \<lfloor>- q\<rfloor>)
      | _ \<Rightarrow> 0)"

definition metric_filter :: "string \<Rightarrow> string" where
  "metric_filter metric_type =
     ''metric.type = '' @ [CHR 0x22] @ metric_type @ [CHR 0x22] @ '' ''
     @ ''AND resource.type = '' @ [CHR 0x22] @ ''gce_instance'' @ [CHR 0x22]"

definition ts_request_common ::
  "world \<Rightarrow> string \<Rightarrow> string \<Rightarrow> state \<Rightarrow> list_time_series_request \<times> state" where
  "ts_request_common w project_id metric_type s =
     (case now_interval w ALIGN_SECONDS s of
        ((start, end), s') \<Rightarrow>
          (\<lparr>req_name = ''projects/'' @ project_id,
            req_filter = metric_filter metric_type,
            req_interval = (int_timestamp start, int_timestamp end),
            req_view = FULL,
            req_aggregation =
              \<lparr>alignment_period = ALIGN_SECONDS,
               per_series_aligner = ALIGN_MEAN,
               cross_series_reducer = Some REDUCE_MEAN\<rparr>\<rparr>, s'))"

text \<open>The scan \<open>for ts in series: if ts.points: return ts.points[0]...\<close>, ending in \<open>nan\<close>.\<close>

fun first_point :: "time_series list \<Rightarrow> pyfloat" where
  "first_point [] = NaN"
| "first_point (ts # series) =
     (case points ts of [] \<Rightarrow> first_point series | p # _ \<Rightarrow> p)"

definition get_project_cpu_avg :: "world \<Rightarrow> string \<Rightarrow> state \<Rightarrow> pyfloat outcome \<times> state" where
  "get_project_cpu_avg w project_id s =
     (case ts_request_common w project_id
             ''compute.googleapis.com/instance/cpu/utilization'' s of
        (req, s') \<Rightarrow>
          (case list_time_series w req of
             Inl e \<Rightarrow> (Raises e, s')
           | Inr series \<Rightarrow>
               (if series = [] then Returns NaN else Returns (first_point series), s')))"

definition get_project_mem_avg :: "world \<Rightarrow> string \<Rightarrow> state \<Rightarrow> pyfloat outcome \<times> state" where
  "get_project_mem_avg w project_id s =
     (case ts_request_common w project_id
             ''agent.googleapis.com/memory/percent_used'' s of
        (req, s') \<Rightarrow>
          (case list_time_series w req of
             Inl e \<Rightarrow> (Raises e, s')
           | Inr series \<Rightarrow>
               (if series = [] then Returns NaN else Returns (first_point series), s')))"

text \<open>\<open>s.split(sep)\<close> for a one-character separator; the result is never empty.\<close>

fun split :: "char \<Rightarrow> string \<Rightarrow> string list" where
  "split sep [] = [[]]"
| "split sep (c # cs) =
     (let r = split sep cs
      in if c = sep then [] # r else (c # hd r) # tl r)"

text \<open>\<open>s.split("/")[-1]\<close>.\<close>

definition last_segment :: "string \<Rightarrow> string" where
  "last_segment s = last (split (CHR ''/'') s)"

text \<open>\<open>d.get(key, "")\<close>.\<close>

definition get_or_empty :: "string option \<Rightarrow> string" where
  "get_or_empty v = (case v of None \<Rightarrow> [] | Some x \<Rightarrow> x)"

text \<open>The dictionary \<open>list_running_vms\<close> appends for a running instance.\<close>

record vm =
  vm_name :: string
  vm_zone :: string
  vm_machineType :: string
  vm_id :: "string option"

definition vm_of :: "vm_instance \<Rightarrow> vm" where
  "vm_of inst =
     \<lparr>vm_name = instance_name inst,
      vm_zone = last_segment (get_or_empty (instance_zone inst)),
      vm_machineType = last_segment (get_or_empty (instance_machineType inst)),
      vm_id = instance_id inst\<rparr>"

text \<open>\<open>resp.get("items", {}).items()\<close>.\<close>

definition resp_items :: "page \<Rightarrow> (string \<times> vm_instance list option) list" where
  "resp_items resp = (case items resp of None \<Rightarrow> [] | Some its \<Rightarrow> its)"

text \<open>\<open>data.get("instances", []) if data.get("instances") else []\<close>.\<close>

definition data_instances :: "vm_instance list option \<Rightarrow> vm_instance list" where
  "data_instances data = (case data of None \<Rightarrow> [] | Some insts \<Rightarrow> insts)"

text \<open>The two nested \<open>for\<close> loops over one response, appending to \<open>result\<close>.\<close>

definition append_running :: "vm list \<Rightarrow> vm_instance \<Rightarrow> vm list" where
  "append_running result inst =
     (if instance_status inst = Some ''RUNNING'' then result @ [vm_of inst] else result)"

definition scan_running :: "page \<Rightarrow> vm list \<Rightarrow> vm list" where
  "scan_running resp result =
     foldl (\<lambda>result (zone, data). foldl append_running result (data_instances data))
       result (resp_items resp)"

text \<open>
  \<open>aggregatedList_next\<close> gives no further request when the response has no
  \<open>nextPageToken\<close> or an empty one.
\<close>

definition has_next :: "page \<Rightarrow> bool" where
  "has_next resp = (case nextPageToken resp of None \<Rightarrow> False | Some t \<Rightarrow> t \<noteq> [])"

text \<open>
  The loop \<open>while req is not None\<close>: each round takes the next response of the service.
  When the service has no response left for a pending request, the call never returns.
\<close>

fun running_loop :: "(error + page) list \<Rightarrow> vm list \<Rightarrow> vm list outcome" where
  "running_loop [] result = Hangs"
| "running_loop (Inl e # rest) result = Raises e"
| "running_loop (Inr resp # rest) result =
     (let result' = scan_running resp result
      in if has_next resp then running_loop rest result' else Returns result')"

text \<open>
  \<open>compute.instances().aggregatedList(project=project_id)\<close> may raise before the loop
  is entered; otherwise the loop runs on the responses to the request.
\<close>

definition list_running_vms :: "world \<Rightarrow> string \<Rightarrow> (int \<times> vm list) outcome" where
  "list_running_vms w project_id =
     (case aggregatedList w project_id of
        Inl e \<Rightarrow> Raises e
      | Inr responses \<Rightarrow>
          (case running_loop responses [] of
             Returns result \<Rightarrow> Returns (int (length result), result)
           | Raises e \<Rightarrow> Raises e
           | Hangs \<Rightarrow> Hangs))"

subsection \<open>get\_per\_instance\_breakdown\<close>

text \<open>\<open>labels.get(key, "")\<close>.\<close>

definition label :: "time_series \<Rightarrow> string \<Rightarrow> string" where
  "label ts key = (case map_of (labels ts) key of None \<Rightarrow> [] | Some v \<Rightarrow> v)"

text \<open>
  A dictionary built by the code is an association list in insertion order;
  \<open>d[k] = v\<close> is \<^const>\<open>AList.update\<close>: a known key keeps its place.
\<close>

definition store_point ::
  "((string \<times> string) \<times> pyfloat) list \<Rightarrow> time_series \<Rightarrow> ((string \<times> string) \<times> pyfloat) list" where
  "store_point vals ts =
     (let inst = label ts ''instance_id'';
          zone = label ts ''zone'';
          key = (inst, zone)
      in case points ts of [] \<Rightarrow> vals | p # _ \<Rightarrow> AList.update key p vals)"

definition fetch ::
  "world \<Rightarrow> string \<Rightarrow> int \<times> int \<Rightarrow> aggregation \<Rightarrow> string
    \<Rightarrow> ((string \<times> string) \<times> pyfloat) list outcome" where
  "fetch w project_id interval agg metric_type =
     (let req = \<lparr>req_name = ''projects/'' @ project_id,
                 req_filter = metric_filter metric_type,
                 req_interval = interval,
                 req_view = FULL,
                 req_aggregation = agg\<rparr>
      in case list_time_series w req of
           Inl e \<Rightarrow> Raises e
         | Inr series \<Rightarrow> Returns (foldl store_point [] series))"

record meta =
  meta_name :: string
  meta_zone :: string
  meta_machineType :: string

definition store_meta ::
  "(string option \<times> meta) list \<Rightarrow> vm_instance \<Rightarrow> (string option \<times> meta) list" where
  "store_meta name_map inst =
     AList.update (instance_id inst)
       \<lparr>meta_name = instance_name inst,
        meta_zone = last_segment (get_or_empty (instance_zone inst)),
        meta_machineType = last_segment (get_or_empty (instance_machineType inst))\<rparr>
       name_map"

definition scan_names :: "page \<Rightarrow> (string option \<times> meta) list \<Rightarrow> (string option \<times> meta) list" where
  "scan_names resp name_map =
     foldl (\<lambda>name_map (zone, data). foldl store_meta name_map (data_instances data))
       name_map (resp_items resp)"

fun names_loop ::
  "(error + page) list \<Rightarrow> (string option \<times> meta) list
    \<Rightarrow> (string option \<times> meta) list outcome" where
  "names_loop [] name_map = Hangs"
| "names_loop (Inl e # rest) name_map = Raises e"
| "names_loop (Inr resp # rest) name_map =
     (let name_map' = scan_names resp name_map
      in if has_next resp then names_loop rest name_map' else Returns name_map')"

record row =
  row_instance :: string
  row_zone :: string
  row_machineType :: string
  cpu_utilization_pct :: pyfloat
  memory_used_pct :: pyfloat

text \<open>One round of \<open>for (inst_id, zone), cpu_val in cpu.items()\<close>.\<close>

definition append_row ::
  "(string option \<times> meta) list \<Rightarrow> ((string \<times> string) \<times> pyfloat) list
    \<Rightarrow> row list \<Rightarrow> (string \<times> string) \<times> pyfloat \<Rightarrow> row list" where
  "append_row name_map mem rows item =
     (case item of
        ((inst_id, zone), cpu_val) \<Rightarrow>
          (case map_of name_map (Some inst_id) of
             None \<Rightarrow> rows
           | Some meta \<Rightarrow>
               rows @
               [\<lparr>row_instance = meta_name meta,
                 row_zone = meta_zone meta,
                 row_machineType = meta_machineType meta,
                 cpu_utilization_pct = py_round2 (py_mul cpu_val (Finite 100)),
                 memory_used_pct =
                   py_round2 (case map_of mem (inst_id, zone) of None \<Rightarrow> NaN | Some v \<Rightarrow> v)\<rparr>]))"

definition join_rows ::
  "((string \<times> string) \<times> pyfloat) list \<Rightarrow> ((string \<times> string) \<times> pyfloat) list
    \<Rightarrow> (string option \<times> meta) list \<Rightarrow> row list" where
  "join_rows cpu mem name_map = foldl (append_row name_map mem) [] cpu"

definition get_per_instance_breakdown ::
  "world \<Rightarrow> string \<Rightarrow> state \<Rightarrow> row list outcome \<times> state" where
  "get_per_instance_breakdown w project_id s =
     (case now_interval w ALIGN_SECONDS s of
        ((start, end), s') \<Rightarrow>
          (let interval = (int_timestamp start, int_timestamp end);
               agg = \<lparr>alignment_period = ALIGN_SECONDS,
                      per_series_aligner = ALIGN_MEAN,
                      cross_series_reducer = None\<rparr>
           in case fetch w project_id interval agg
                     ''compute.googleapis.com/instance/cpu/utilization'' of
                Raises e \<Rightarrow> (Raises e, s')
              | Hangs \<Rightarrow> (Hangs, s')
              | Returns cpu \<Rightarrow>
                  (case fetch w project_id interval agg
                          ''agent.googleapis.com/memory/percent_used'' of
                     Raises e \<Rightarrow> (Raises e, s')
                   | Hangs \<Rightarrow> (Hangs, s')
                   | Returns mem \<Rightarrow>
                       (case aggregatedList w project_id of
                          Inl e \<Rightarrow> (Raises e, s')
                        | Inr responses \<Rightarrow>
                            (case names_loop responses [] of
                               Raises e \<Rightarrow> (Raises e, s')
                             | Hangs \<Rightarrow> (Hangs, s')
                             | Returns name_map \<Rightarrow>
                                 (Returns (join_rows cpu mem name_map), s'))))))"

section \<open>main.py\<close>

definition PROJECTS :: "string list" where
  "PROJECTS =
     [''km-prod'',
      ''km-prod-cn-443607'',
      ''km-prod-eu'',
      ''km-prod-in'',
      ''km-prod-us'',
      ''km-dev-434106'']"

text \<open>\<open>print(line)\<close> writes the line to standard output.\<close>

definition print :: "string \<Rightarrow> state \<Rightarrow> state" where
  "print line s = s\<lparr>stdout := stdout s @ [line]\<rparr>"

text \<open>Sequencing: what follows a call runs only when the call returns.\<close>

definition and_then ::
  "'a outcome \<times> state \<Rightarrow> ('a \<Rightarrow> state \<Rightarrow> 'b outcome \<times> state) \<Rightarrow> 'b outcome \<times> state" where
  "and_then m f =
     (case m of
        (Returns a, s) \<Rightarrow> f a s
      | (Raises e, s) \<Rightarrow> (Raises e, s)
      | (Hangs, s) \<Rightarrow> (Hangs, s))"

text \<open>The three \<open>try\<close> blocks; each \<open>except\<close> clause catches one class of error.\<close>

definition try_cpu_avg :: "world \<Rightarrow> string \<Rightarrow> state \<Rightarrow> pyfloat outcome \<times> state" where
  "try_cpu_avg w project_id s =
     (case get_project_cpu_avg w project_id s of
        (Raises (GoogleAPICallError e), s') \<Rightarrow>
          (Returns NaN, print (''[!] CPU query failed for '' @ project_id @ '': '' @ e) s')
      | (r, s') \<Rightarrow> (r, s'))"

definition try_mem_avg :: "world \<Rightarrow> string \<Rightarrow> state \<Rightarrow> pyfloat outcome \<times> state" where
  "try_mem_avg w project_id s =
     (case get_project_mem_avg w project_id s of
        (Raises (GoogleAPICallError e), s') \<Rightarrow>
          (Returns NaN, print (''[!] Memory query failed for '' @ project_id @ '': '' @ e) s')
      | (r, s') \<Rightarrow> (r, s'))"

definition try_list_running_vms ::
  "world \<Rightarrow> string \<Rightarrow> state \<Rightarrow> (int \<times> vm list) outcome \<times> state" where
  "try_list_running_vms w project_id s =
     (case list_running_vms w project_id of
        Raises (HttpError e) \<Rightarrow>
          (Returns (0, []), print (''[!] VM list failed for '' @ project_id @ '': '' @ e) s)
      | r \<Rightarrow> (r, s))"

definition cpu_line :: "pyfloat \<Rightarrow> string" where
  "cpu_line cpu_avg =
     ''Average CPU Utilization: '' @
     (if py_eq_self cpu_avg then fmt_2f (py_mul cpu_avg (Finite 100)) @ ''%'' else ''N/A'')"

definition mem_line :: "pyfloat \<Rightarrow> string" where
  "mem_line mem_avg =
     ''Average Memory Used: '' @
     (if py_eq_self mem_avg then fmt_2f mem_avg @ ''%'' else ''N/A'')"

definition table_header :: string where
  "table_header =
     ljust 32 ''INSTANCE'' @ '' '' @ ljust 15 ''ZONE'' @ '' '' @ ljust 20 ''TYPE'' @ '' ''
     @ rjust 8 ''CPU%'' @ '' '' @ rjust 8 ''MEM%''"

definition table_line :: "row \<Rightarrow> string" where
  "table_line r =
     ljust 32 (take 32 (row_instance r)) @ '' '' @ ljust 15 (take 15 (row_zone r)) @ '' ''
     @ ljust 20 (take 20 (row_machineType r)) @ '' ''
     @ rjust 8 (fmt_2f (cpu_utilization_pct r)) @ '' ''
     @ rjust 8 (fmt_2f (memory_used_pct r))"

text \<open>\<open>sorted(rows, key=lambda x: (x['zone'], x['instance']))\<close>: a stable sort.\<close>

definition sorted_rows :: "row list \<Rightarrow> row list" where
  "sorted_rows rows = sort_key (\<lambda>x. (row_zone x, row_instance x)) rows"

definition print_rows :: "row list \<Rightarrow> state \<Rightarrow> state" where
  "print_rows rows s =
     (if rows = [] then
        print ''No per-instance metrics found (ensure Ops Agent is installed).'' s
      else foldl (\<lambda>s r. print (table_line r) s) (print table_header s) (sorted_rows rows))"

definition run_for_project :: "world \<Rightarrow> string \<Rightarrow> state \<Rightarrow> unit outcome \<times> state" where
  "run_for_project w project_id s =
     and_then (try_cpu_avg w project_id s) (\<lambda>cpu_avg s.
     and_then (try_mem_avg w project_id s) (\<lambda>mem_avg s.
     and_then (try_list_running_vms w project_id s) (\<lambda>(vm_count, vms) s.
       let s = print (CHR 0x0A # ''=== GCP Project Health (last 10 minutes) ==='') s;
           s = print (''Project: '' @ project_id) s;
           s = print (cpu_line cpu_avg) s;
           s = print (mem_line mem_avg) s;
           s = print (''RUNNING VMs: '' @ str_int vm_count) s
       in if vm_count = 0 then (Returns (), s)
          else
            and_then
              (get_per_instance_breakdown w project_id
                 (print (CHR 0x0A # ''-- Per-instance (avg of last 10m) --'') s))
              (\<lambda>rows s. (Returns (), print_rows rows s)))))"

text \<open>\<open>for pid in PROJECTS: run_for_project(pid)\<close>.\<close>

fun run_for_projects :: "world \<Rightarrow> string list \<Rightarrow> state \<Rightarrow> unit outcome \<times> state" where
  "run_for_projects w [] s = (Returns (), s)"
| "run_for_projects w (pid # pids) s =
     and_then (run_for_project w pid s) (\<lambda>_ s. run_for_projects w pids s)"

text \<open>The parsed command line, and the text \<open>parser.print_help()\<close> prints.\<close>

record args =
  args_project :: "string option"
  args_all :: bool

definition main :: "world \<Rightarrow> string \<Rightarrow> args \<Rightarrow> state \<Rightarrow> unit outcome \<times> state" where
  "main w help args s =
     (if args_all args then run_for_projects w PROJECTS s
      else case args_project args of
             Some pid \<Rightarrow>
               (if pid \<noteq> [] then run_for_project w pid s else (Returns (), print help s))
           | None \<Rightarrow> (Returns (), print help s))"

section \<open>app.py\<close>

definition app_PROJECTS :: "string list" where
  "app_PROJECTS =
     [''km-prod'',
      ''km-prod-cn-443607'',
      ''km-prod-eu'',
      ''km-prod-in'',
      ''km-prod-us'',
      ''km-dev-434106'']"

record result =
  result_project :: string
  result_cpu_avg :: string
  result_mem_avg :: string
  result_vm_count :: int
  result_instances :: "row list"

text \<open>What \<open>index\<close> hands to \<open>render_template("index.html", ...)\<close>.\<close>

record template_args =
  tmpl_projects :: "string list"
  tmpl_result :: "result option"

text \<open>
  \<open>index\<close> on the value of \<open>request.form.get("project_id")\<close>: \<open>None\<close> when the form has
  no such field, as on a GET.
\<close>

definition index :: "world \<Rightarrow> string option \<Rightarrow> state \<Rightarrow> template_args outcome \<times> state" where
  "index w project_id s =
     (case project_id of
        None \<Rightarrow> (Returns \<lparr>tmpl_projects = app_PROJECTS, tmpl_result = None\<rparr>, s)
      | Some pid \<Rightarrow>
          if pid = [] then (Returns \<lparr>tmpl_projects = app_PROJECTS, tmpl_result = None\<rparr>, s)
          else
            and_then (get_project_cpu_avg w pid s) (\<lambda>cpu_avg s.
            and_then (get_project_mem_avg w pid s) (\<lambda>mem_avg s.
            and_then (list_running_vms w pid, s) (\<lambda>(vm_count, vms) s.
            and_then (get_per_instance_breakdown w pid s) (\<lambda>per_instance s.
              (Returns
                 \<lparr>tmpl_projects = app_PROJECTS,
                  tmpl_result =
                    Some \<lparr>result_project = pid,
                          result_cpu_avg =
                            (if py_eq_self cpu_avg
                             then fmt_2f (py_mul cpu_avg (Finite 100)) @ ''%'' else ''N/A''),
                          result_mem_avg =
                            (if py_eq_self mem_avg then fmt_2f mem_avg @ ''%'' else ''N/A''),
                          result_vm_count = vm_count,
                          result_instances = per_instance\<rparr>\<rparr>, s))))))"

section \<open>Notions of the specification and example inputs\<close>

text \<open>
  The value of the first point of the first series that has at least one point, and
  not-a-number when there is no such series.
\<close>

definition first_available_point :: "time_series list \<Rightarrow> pyfloat" where
  "first_available_point series =
     (case find (\<lambda>ts. points ts \<noteq> []) series of
        None \<Rightarrow> NaN
      | Some ts \<Rightarrow> hd (points ts))"

definition state0 :: state where
  "state0 = \<lparr>clock_reads = 0, stdout = []\<rparr>"

definition example_series :: "time_series list" where
  "example_series =
     [\<lparr>labels = [], points = []\<rparr>,
      \<lparr>labels = [], points = [Finite (1 / 4), Finite (1 / 2)]\<rparr>,
      \<lparr>labels = [], points = [Finite (3 / 4)]\<rparr>]"

definition example_world :: world where
  "example_world =
     \<lparr>utcnow = (\<lambda>n. 1700000000000000),
      list_time_series = (\<lambda>req. Inr example_series),
      aggregatedList = (\<lambda>p. Inr [])\<rparr>"

text \<open>The last segment of a resource path: what follows its last slash.\<close>

definition last_path_segment :: "string \<Rightarrow> string" where
  "last_path_segment s = rev (takeWhile (\<lambda>c. c \<noteq> CHR ''/'') (rev s))"

text \<open>The instances of a page, and the running ones of a sequence of pages.\<close>

definition page_instances :: "page \<Rightarrow> vm_instance list" where
  "page_instances resp = concat (map (\<lambda>(zone, data). data_instances data) (resp_items resp))"

definition is_running :: "vm_instance \<Rightarrow> bool" where
  "is_running inst = (instance_status inst = Some ''RUNNING'')"

definition running_instances :: "page list \<Rightarrow> vm_instance list" where
  "running_instances pages = filter is_running (concat (map page_instances pages))"

definition running_record :: "vm_instance \<Rightarrow> vm" where
  "running_record inst =
     \<lparr>vm_name = instance_name inst,
      vm_zone = last_path_segment (get_or_empty (instance_zone inst)),
      vm_machineType = last_path_segment (get_or_empty (instance_machineType inst)),
      vm_id = instance_id inst\<rparr>"

text \<open>
  A paginated response sequence that ends in a page with no continuation token: every
  page but the last announces a next page.
\<close>

definition paged :: "page list \<Rightarrow> bool" where
  "paged pages =
     (pages \<noteq> [] \<and> list_all has_next (butlast pages) \<and> \<not> has_next (last pages))"

text \<open>The responses reach a page with no continuation token before any error.\<close>

fun reaches_last_page :: "(error + page) list \<Rightarrow> bool" where
  "reaches_last_page [] = False"
| "reaches_last_page (Inl e # rest) = False"
| "reaches_last_page (Inr resp # rest) = (\<not> has_next resp \<or> reaches_last_page rest)"

text \<open>Three pages of an inventory, two instances of which are running.\<close>

definition web1 :: vm_instance where
  "web1 = \<lparr>instance_name = ''web-1'',
            instance_zone = Some ''projects/p/zones/us-central1-a'',
            instance_machineType = Some ''projects/p/zones/us-central1-a/machineTypes/e2-medium'',
            instance_id = Some ''123'',
            instance_status = Some ''RUNNING''\<rparr>"

definition db1 :: vm_instance where
  "db1 = \<lparr>instance_name = ''db-1'',
           instance_zone = Some ''projects/p/zones/europe-west1-b'',
           instance_machineType = Some ''projects/p/zones/europe-west1-b/machineTypes/n1-standard-1'',
           instance_id = Some ''456'',
           instance_status = Some ''TERMINATED''\<rparr>"

definition web2 :: vm_instance where
  "web2 = \<lparr>instance_name = ''web-2'',
            instance_zone = None,
            instance_machineType = Some ''e2-small'',
            instance_id = Some ''789'',
            instance_status = Some ''RUNNING''\<rparr>"

definition example_pages :: "page list" where
  "example_pages =
     [\<lparr>items = Some [(''zones/us-central1-a'', Some [web1]), (''zones/us-east1-b'', None)],
       nextPageToken = Some ''t1''\<rparr>,
      \<lparr>items = Some [(''zones/europe-west1-b'', Some [db1])], nextPageToken = Some ''t2''\<rparr>,
      \<lparr>items = Some [(''zones/us-central1-a'', Some [web2])], nextPageToken = None\<rparr>]"

text \<open>
  A world in which every project has these three pages as inventory, but for the id
  \<open>KM-PROD\<close>, which the inventory client refuses: an id has no capital letters.
\<close>

definition paged_world :: world where
  "paged_world =
     \<lparr>utcnow = (\<lambda>n. 1700000000000000),
      list_time_series = (\<lambda>req. Inr []),
      aggregatedList =
        (\<lambda>p. if p = ''KM-PROD''
               then Inl (TypeError ''Parameter project value KM-PROD does not match the pattern'')
               else Inr (map Inr example_pages))\<rparr>"

text \<open>
  The map \<open>get_per_instance_breakdown\<close> fetches for a metric type when it is called in
  state \<open>s\<close>.
\<close>

definition breakdown_fetch ::
  "world \<Rightarrow> string \<Rightarrow> state \<Rightarrow> string \<Rightarrow> ((string \<times> string) \<times> pyfloat) list outcome" where
  "breakdown_fetch w project_id s metric_type =
     fetch w project_id
       (int_timestamp (utcnow w (clock_reads s) - ALIGN_SECONDS * 1000000),
        int_timestamp (utcnow w (clock_reads s)))
       \<lparr>alignment_period = ALIGN_SECONDS, per_series_aligner = ALIGN_MEAN,
        cross_series_reducer = None\<rparr>
       metric_type"

text \<open>The VM record map \<open>get_per_instance_breakdown\<close> builds from the inventory.\<close>

definition breakdown_names ::
  "world \<Rightarrow> string \<Rightarrow> (string option \<times> meta) list outcome" where
  "breakdown_names w project_id =
     (case aggregatedList w project_id of
        Inl e \<Rightarrow> Raises e
      | Inr responses \<Rightarrow> names_loop responses [])"

text \<open>The instance id of an entry of the CPU map appears in the VM record map.\<close>

definition known :: "(string option \<times> meta) list \<Rightarrow> (string \<times> string) \<times> pyfloat \<Rightarrow> bool" where
  "known name_map item = (map_of name_map (Some (fst (fst item))) \<noteq> None)"

text \<open>
  Rounding to two decimals. \<open>d\<close> hundredths is the two-place decimal nearest to \<open>q\<close>, the
  one with an even last digit when two are equally near.
\<close>

definition nearest_hundredths :: "rat \<Rightarrow> int \<Rightarrow> bool" where
  "nearest_hundredths q d =
     (\<bar>of_int d / 100 - q\<bar> \<le> 1 / 200 \<and> (\<bar>of_int d / 100 - q\<bar> = 1 / 200 \<longrightarrow> even d))"

text \<open>
  \<open>y\<close> is \<open>x\<close> rounded to two decimals: the float nearest to the two-place decimal nearest
  to \<open>x\<close>, with the sign of \<open>x\<close>; an infinity and not-a-number have no decimals to round.
\<close>

definition rounded_to_2_decimals :: "pyfloat \<Rightarrow> pyfloat \<Rightarrow> bool" where
  "rounded_to_2_decimals x y =
     (case x of
        Finite q \<Rightarrow>
          (\<exists>d. nearest_hundredths \<bar>q\<bar> d \<and> y = binary64 (q < 0) (of_int d / 100))
      | _ \<Rightarrow> y = x)"

text \<open>
  The row joined for an entry of the CPU map: the VM record of its instance id, the CPU
  sample times 100 rounded to two decimals, and the memory sample under the same key
  rounded to two decimals, or not-a-number when the memory map has no such key.
\<close>

definition joined_row ::
  "(string option \<times> meta) list \<Rightarrow> ((string \<times> string) \<times> pyfloat) list
    \<Rightarrow> (string \<times> string) \<times> pyfloat \<Rightarrow> row" where
  "joined_row name_map mem item =
     (let record = the (map_of name_map (Some (fst (fst item))))
      in \<lparr>row_instance = meta_name record,
          row_zone = meta_zone record,
          row_machineType = meta_machineType record,
          cpu_utilization_pct = py_round2 (py_mul (snd item) (Finite 100)),
          memory_used_pct =
            (case map_of mem (fst item) of None \<Rightarrow> NaN | Some v \<Rightarrow> py_round2 v)\<rparr>)"

text \<open>
  A project with the three pages above as inventory: CPU samples for a running instance
  (\<open>0.4567\<close>), for an id the inventory does not know and for a stopped instance
  (\<open>0.1236789\<close>); memory samples for two running instances (\<open>62.503\<close> and \<open>40.0\<close>), one
  of which has no CPU sample.
\<close>

definition cpu_series :: "time_series list" where
  "cpu_series =
     [\<lparr>labels = [(''instance_id'', ''123''), (''zone'', ''us-central1-a'')],
       points = [float_of (4567 / 10000)]\<rparr>,
      \<lparr>labels = [(''instance_id'', ''999''), (''zone'', ''us-central1-a'')],
       points = [Finite (1 / 2)]\<rparr>,
      \<lparr>labels = [(''instance_id'', ''456''), (''zone'', ''europe-west1-b'')],
       points = [float_of (1236789 / 10000000), Finite (1 / 8)]\<rparr>]"

definition mem_series :: "time_series list" where
  "mem_series =
     [\<lparr>labels = [(''instance_id'', ''123''), (''zone'', ''us-central1-a'')],
       points = [float_of (62503 / 1000)]\<rparr>,
      \<lparr>labels = [(''instance_id'', ''789''), (''zone'', ''us-central1-a'')],
       points = [Finite 40]\<rparr>]"

definition breakdown_world :: world where
  "breakdown_world =
     \<lparr>utcnow = (\<lambda>n. 1700000000000000),
      list_time_series =
        (\<lambda>req. if req_filter req
                      = metric_filter ''compute.googleapis.com/instance/cpu/utilization''
                  then Inr cpu_series else Inr mem_series),
      aggregatedList = (\<lambda>p. Inr (map Inr example_pages))\<rparr>"

definition example_cpu :: "((string \<times> string) \<times> pyfloat) list" where
  "example_cpu =
     [((''123'', ''us-central1-a''), float_of (4567 / 10000)),
      ((''999'', ''us-central1-a''), Finite (1 / 2)),
      ((''456'', ''europe-west1-b''), float_of (1236789 / 10000000))]"

definition example_mem :: "((string \<times> string) \<times> pyfloat) list" where
  "example_mem =
     [((''123'', ''us-central1-a''), float_of (62503 / 1000)),
      ((''789'', ''us-central1-a''), Finite 40)]"

definition example_name_map :: "(string option \<times> meta) list" where
  "example_name_map =
     [(Some ''123'',
       \<lparr>meta_name = ''web-1'', meta_zone = ''us-central1-a'', meta_machineType = ''e2-medium''\<rparr>),
      (Some ''456'',
       \<lparr>meta_name = ''db-1'', meta_zone = ''europe-west1-b'',
        meta_machineType = ''n1-standard-1''\<rparr>),
      (Some ''789'',
       \<lparr>meta_name = ''web-2'', meta_zone = [], meta_machineType = ''e2-small''\<rparr>)]"

definition example_rows :: "row list" where
  "example_rows =
     [\<lparr>row_instance = ''web-1'', row_zone = ''us-central1-a'', row_machineType = ''e2-medium'',
       cpu_utilization_pct = float_of (4567 / 100), memory_used_pct = Finite (125 / 2)\<rparr>,
      \<lparr>row_instance = ''db-1'', row_zone = ''europe-west1-b'',
       row_machineType = ''n1-standard-1'',
       cpu_utilization_pct = float_of (1237 / 100), memory_used_pct = NaN\<rparr>]"

text \<open>A project whose only instance is stopped and has a CPU sample in the window.\<close>

definition stopped_pages :: "page list" where
  "stopped_pages =
     [\<lparr>items = Some [(''zones/europe-west1-b'', Some [db1])], nextPageToken = None\<rparr>]"

definition stopped_world :: world where
  "stopped_world =
     \<lparr>utcnow = (\<lambda>n. 1700000000000000),
      list_time_series =
        (\<lambda>req. if req_filter req
                      = metric_filter ''compute.googleapis.com/instance/cpu/utilization''
                  then Inr [\<lparr>labels = [(''instance_id'', ''456''), (''zone'', ''europe-west1-b'')],
                             points = [Finite (1 / 4)]\<rparr>]
                  else Inr []),
      aggregatedList = (\<lambda>p. Inr (map Inr stopped_pages))\<rparr>"

text \<open>The state after one more reading of the clock.\<close>

definition tick :: "state \<Rightarrow> state" where
  "tick s = s\<lparr>clock_reads := Suc (clock_reads s)\<rparr>"

text \<open>The state after more lines have been printed.\<close>

definition emit :: "string list \<Rightarrow> state \<Rightarrow> state" where
  "emit ls s = s\<lparr>stdout := stdout s @ ls\<rparr>"

text \<open>
  A call is framed when its outcome, the number of times it reads the clock and the lines
  it prints are the same in whatever state it starts, and it changes nothing else.
\<close>

definition framed :: "(state \<Rightarrow> 'a outcome \<times> state) \<Rightarrow> bool" where
  "framed f =
     (\<exists>r k out. \<forall>s. f s = (r, s\<lparr>clock_reads := clock_reads s + k, stdout := stdout s @ out\<rparr>))"

text \<open>
  The spec's batch scenario: the metrics service answers every request about the second
  project of the list with an error (permission denied, a \<open>GoogleAPICallError\<close>), and
  that project has running instances; every other project has no series and an empty
  inventory.
\<close>

definition failing_world :: world where
  "failing_world =
     \<lparr>utcnow = (\<lambda>n. 1700000000000000),
      list_time_series =
        (\<lambda>req. if req_name req = ''projects/km-prod-cn-443607''
                  then Inl (GoogleAPICallError ''403 Permission denied'') else Inr []),
      aggregatedList =
        (\<lambda>p. if p = ''km-prod-cn-443607'' then Inr (map Inr example_pages)
               else Inr [Inr \<lparr>items = None, nextPageToken = None\<rparr>])\<rparr>"
section \<open>Python floats\<close>

lemma bit_length_nonpos: "a \<le> 0 \<Longrightarrow> bit_length a = 0"
  by (simp add: bit_length.simps)

lemma bit_length_pos: "0 < a \<Longrightarrow> bit_length a = 1 + bit_length (a div 2)"
  by (subst bit_length.simps) simp

text \<open>The binary exponent is the one the definition of \<open>ilog2\<close> announces.\<close>

lemma pow2_powi: "pow2 e = 2 powi e"
  by (simp add: pow2_def power_int_def field_simps)

lemma bit_length_nonneg: "0 \<le> bit_length a"
  by (induction a rule: bit_length.induct) (subst bit_length.simps, simp)

lemma bit_length_positive: "0 < a \<Longrightarrow> 0 < bit_length a"
  using bit_length_nonneg [of "a div 2"] by (subst bit_length.simps) simp

lemma bit_length_bounds:
  "0 < a \<Longrightarrow> 2 ^ nat (bit_length a - 1) \<le> a \<and> a < 2 ^ nat (bit_length a)"
proof (induction a rule: bit_length.induct)
  case (1 a)
  show ?case
  proof (cases "a = 1")
    case True
    then show ?thesis
      by (simp add: bit_length_pos bit_length_nonpos)
  next
    case False
    with "1.prems" have half: "0 < a div 2" by simp
    let ?b = "bit_length (a div 2)"
    from "1.IH" half "1.prems" have
      ih: "2 ^ nat (?b - 1) \<le> a div 2" "a div 2 < 2 ^ nat ?b"
      by simp_all
    have b: "0 < ?b" using half by (rule bit_length_positive)
    have bl: "bit_length a = 1 + ?b"
      using "1.prems" by (rule bit_length_pos)
    have "nat ?b = Suc (nat (?b - 1))" using b by simp
    then have "(2::int) ^ nat ?b = 2 * 2 ^ nat (?b - 1)" by simp
    then have lower: "(2::int) ^ nat ?b \<le> a" using ih(1) by linarith
    have "nat (1 + ?b) = Suc (nat ?b)" using b by simp
    then have "(2::int) ^ nat (1 + ?b) = 2 * 2 ^ nat ?b" by simp
    then have upper: "a < 2 ^ nat (1 + ?b)" using ih(2) by linarith
    show ?thesis using lower upper by (simp add: bl)
  qed
qed

lemma pow2_nonneg_exp: "0 \<le> e \<Longrightarrow> pow2 e = 2 ^ nat e"
  by (simp add: pow2_def)

lemma pow2_neg_exp: "e \<le> 0 \<Longrightarrow> pow2 e = 1 / 2 ^ nat (- e)"
  by (cases "e = 0") (simp_all add: pow2_def)

lemma pow2_pos: "0 < pow2 e"
  by (simp add: pow2_def)

lemma pow2_Suc: "pow2 (e + 1) = 2 * pow2 e"
  by (simp add: pow2_powi power_int_add)

lemma ilog2_bounds:
  assumes "0 < q"
  shows "pow2 (ilog2 q) \<le> q \<and> q < pow2 (ilog2 q + 1)"
proof (cases "1 \<le> q")
  case True
  let ?n = "\<lfloor>q\<rfloor>"
  let ?k = "bit_length ?n - 1"
  have n: "0 < ?n" using True by simp
  have k: "0 \<le> ?k" using bit_length_positive [OF n] by simp
  from bit_length_bounds [OF n] have "2 ^ nat ?k \<le> ?n" "?n + 1 \<le> 2 ^ nat (bit_length ?n)"
    by simp_all
  then have "(of_int (2 ^ nat ?k) :: rat) \<le> of_int ?n"
    "(of_int (?n + 1) :: rat) \<le> of_int (2 ^ nat (bit_length ?n))"
    by (simp_all only: of_int_le_iff)
  then have i: "(2::rat) ^ nat ?k \<le> of_int ?n"
    and j: "of_int ?n + 1 \<le> (2::rat) ^ nat (bit_length ?n)"
    by simp_all
  have lower: "2 ^ nat ?k \<le> q"
    using i of_int_floor_le [of q] by (rule order_trans)
  have "q < of_int ?n + 1"
    using floor_correct [of q] by simp
  then have upper: "q < 2 ^ nat (bit_length ?n)"
    using j by (rule less_le_trans)
  have "nat (?k + 1) = nat (bit_length ?n)" by simp
  then have "pow2 ?k \<le> q" "q < pow2 (?k + 1)"
    using lower upper k bit_length_positive [OF n]
    by (simp_all add: pow2_nonneg_exp)
  then show ?thesis
    using True by (simp add: ilog2_def Let_def)
next
  case False
  let ?n = "\<lfloor>1 / q\<rfloor>"
  let ?b = "bit_length ?n"
  have inv: "1 < 1 / q" using False assms by simp
  then have n: "0 < ?n" by simp
  have b: "0 < ?b" using n by (rule bit_length_positive)
  from bit_length_bounds [OF n] have "2 ^ nat (?b - 1) \<le> ?n" "?n + 1 \<le> 2 ^ nat ?b"
    by simp_all
  then have "(of_int (2 ^ nat (?b - 1)) :: rat) \<le> of_int ?n"
    "(of_int (?n + 1) :: rat) \<le> of_int (2 ^ nat ?b)"
    by (simp_all only: of_int_le_iff)
  then have i: "(2::rat) ^ nat (?b - 1) \<le> of_int ?n"
    and j: "of_int ?n + 1 \<le> (2::rat) ^ nat ?b"
    by simp_all
  have lo: "2 ^ nat (?b - 1) \<le> 1 / q"
    using i of_int_floor_le [of "1 / q"] by (rule order_trans)
  have "1 / q < of_int ?n + 1"
    using floor_correct [of "1 / q"] by simp
  then have up: "1 / q < 2 ^ nat ?b"
    using j by (rule less_le_trans)
  have above: "pow2 (- ?b) < q"
  proof -
    have "1 < q * 2 ^ nat ?b"
      using up assms by (simp add: field_simps)
    then have "1 / 2 ^ nat ?b < q"
      by (simp add: field_simps)
    then show ?thesis using b by (simp add: pow2_neg_exp)
  qed
  have below: "q \<le> pow2 (- ?b + 1)"
  proof -
    have "q * 2 ^ nat (?b - 1) \<le> 1"
      using lo assms by (simp add: field_simps)
    then have "q \<le> 1 / 2 ^ nat (?b - 1)"
      by (simp add: field_simps)
    moreover have "nat (- (- ?b + 1)) = nat (?b - 1)" by simp
    ultimately show ?thesis using b by (simp add: pow2_neg_exp)
  qed
  show ?thesis
  proof (cases "pow2 (- ?b + 1) \<le> q")
    case True
    then have "ilog2 q = - ?b + 1"
      using False by (simp add: ilog2_def Let_def)
    moreover have "q < pow2 (- ?b + 1 + 1)"
      using below pow2_pos [of "- ?b + 1"] by (simp only: pow2_Suc)
    ultimately show ?thesis using True by simp
  next
    case neq: False
    then have "ilog2 q = - ?b"
      using False by (simp add: ilog2_def Let_def)
    then show ?thesis using above neq by simp
  qed
qed

text \<open>Rounding to the nearest integer moves a number by at most one half.\<close>

lemma round_half_even_near: "\<bar>of_int (round_half_even x) - x\<bar> \<le> 1 / 2"
proof -
  have "of_int \<lfloor>x\<rfloor> \<le> x" "x < of_int \<lfloor>x\<rfloor> + 1"
    using floor_correct [of x] by simp_all
  then show ?thesis
    by (auto simp: round_half_even_def Let_def)
qed

text \<open>
  Rounding to the nearest integer gives an even integer when the number lies half-way
  between two integers.
\<close>

lemma round_half_even_tie:
  assumes "\<bar>of_int (round_half_even x) - x\<bar> = 1 / 2"
  shows "even (round_half_even x)"
proof -
  have fl: "of_int \<lfloor>x\<rfloor> \<le> x" "x < of_int \<lfloor>x\<rfloor> + 1"
    using floor_correct [of x] by simp_all
  show ?thesis
    using assms fl by (auto simp: round_half_even_def Let_def split: if_splits)
qed

text \<open>At most one two-place decimal is the nearest one.\<close>

lemma nearest_hundredths_unique:
  assumes "nearest_hundredths q d" and "nearest_hundredths q d'"
  shows "d = d'"
proof (rule ccontr)
  assume neq: "d \<noteq> d'"
  have d: "\<bar>of_int d - 100 * q\<bar> \<le> 1 / 2" and d': "\<bar>of_int d' - 100 * q\<bar> \<le> 1 / 2"
    using assms by (simp_all add: nearest_hundredths_def field_simps abs_if split: if_splits)
  have td: "\<bar>of_int d - 100 * q\<bar> = 1 / 2 \<Longrightarrow> even d"
    and td': "\<bar>of_int d' - 100 * q\<bar> = 1 / 2 \<Longrightarrow> even d'"
    using assms by (simp_all add: nearest_hundredths_def field_simps abs_if split: if_splits)
  have "\<bar>(of_int d :: rat) - of_int d'\<bar> \<le> 1" using d d' by linarith
  then have "\<bar>d - d'\<bar> \<le> 1" by (metis of_int_abs of_int_diff of_int_le_1_iff)
  then consider "d = d' + 1" | "d' = d + 1" using neq by linarith
  then show False
  proof cases
    case 1
    then have "of_int d = (of_int d' :: rat) + 1" by simp
    then have "\<bar>of_int d - 100 * q\<bar> = 1 / 2" "\<bar>of_int d' - 100 * q\<bar> = 1 / 2"
      using d d' by linarith+
    then have "even d" "even d'" using td td' by simp_all
    then show False using 1 by simp
  next
    case 2
    then have "of_int d' = (of_int d :: rat) + 1" by simp
    then have "\<bar>of_int d - 100 * q\<bar> = 1 / 2" "\<bar>of_int d' - 100 * q\<bar> = 1 / 2"
      using d d' by linarith+
    then have "even d" "even d'" using td td' by simp_all
    then show False using 2 by simp
  qed
qed

text \<open>So a float has one rounding to two decimals, and \<open>round(x, 2)\<close> is that one.\<close>

lemma rounded_to_2_decimals_unique:
  assumes "rounded_to_2_decimals x y" and "rounded_to_2_decimals x y'"
  shows "y = y'"
  using assms nearest_hundredths_unique
  by (cases x) (auto simp: rounded_to_2_decimals_def)

lemma round_half_even_nearest: "nearest_hundredths q (round_half_even (q * 100))"
proof -
  let ?d = "round_half_even (q * 100)"
  have eq: "\<bar>of_int ?d / 100 - q\<bar> = \<bar>of_int ?d - q * 100\<bar> / 100"
    by (simp add: abs_if field_simps)
  show ?thesis
    unfolding nearest_hundredths_def eq
    using round_half_even_near [of "q * 100"] round_half_even_tie [of "q * 100"]
    by simp
qed

lemma py_round2_rounds: "rounded_to_2_decimals x (py_round2 x)"
  using round_half_even_nearest
  by (cases x) (auto simp: rounded_to_2_decimals_def py_round2_def)

lemma rounded_to_2_decimals_iff: "rounded_to_2_decimals x y \<longleftrightarrow> y = py_round2 x"
  using py_round2_rounds rounded_to_2_decimals_unique by blast

text \<open>
  A finite result of \<open>binary64\<close> is within half a unit in the last place of the magnitude
  it rounds.
\<close>

lemma binary64_near:
  assumes "0 < q" and "binary64 neg q = Finite r"
  shows "\<bar>\<bar>r\<bar> - q\<bar> \<le> pow2 (max (ilog2 q) (- 1022) - 52) / 2"
proof -
  let ?ulp = "pow2 (max (ilog2 q) (- 1022) - 52)"
  let ?m = "round_half_even (q / ?ulp)"
  have ulp: "0 < ?ulp" by (rule pow2_pos)
  have m: "0 \<le> of_int ?m * ?ulp"
  proof -
    have "0 \<le> q / ?ulp" using assms(1) ulp by simp
    then have "- (1 / 2) \<le> (of_int ?m :: rat)"
      using round_half_even_near [of "q / ?ulp"] by linarith
    then have "- 1 < (of_int ?m :: rat)" by linarith
    then have "0 \<le> ?m" by linarith
    then show ?thesis using ulp by simp
  qed
  have "\<bar>r\<bar> = of_int ?m * ?ulp"
    using assms m by (auto simp: binary64_def Let_def split: if_splits)
  moreover have "\<bar>of_int ?m * ?ulp - q\<bar> = ?ulp * \<bar>of_int ?m - q / ?ulp\<bar>"
  proof -
    have "of_int ?m * ?ulp - q = ?ulp * (of_int ?m - q / ?ulp)"
      using ulp by (simp add: field_simps)
    then show ?thesis using ulp by (simp add: abs_mult)
  qed
  moreover have "?ulp * \<bar>of_int ?m - q / ?ulp\<bar> \<le> ?ulp * (1 / 2)"
    using round_half_even_near [of "q / ?ulp"] ulp by (intro mult_left_mono) simp_all
  ultimately show ?thesis by simp
qed

text \<open>Evaluation of the float operations on numerals.\<close>

lemma floor_rat_divide_numeral: "\<lfloor>numeral a / numeral b :: rat\<rfloor> = numeral a div numeral b"
  by (metis floor_divide_of_int_eq of_int_numeral)

lemma floor_rat_one_divide_numeral: "\<lfloor>1 / numeral b :: rat\<rfloor> = 1 div numeral b"
  by (metis floor_divide_of_int_eq of_int_numeral of_int_1)

lemmas float_eval = float_of_def binary64_def ilog2_def Let_def pow2_def round_half_even_def
  bit_length_nonpos bit_length_pos floor_rat_divide_numeral floor_rat_one_divide_numeral

lemma hundred: "float_of 100 = Finite 100"
  by (simp add: float_eval)

lemma float_of_4567: "float_of (4567 / 10000) = Finite (4113587899640211 / 9007199254740992)"
  by (simp add: float_eval)

lemma mul_4567: "py_mul (Finite (4113587899640211 / 9007199254740992)) (Finite 100)
                 = Finite (6427481093187830 / 140737488355328)"
  by (simp add: py_mul_def float_eval)

lemma round_4567: "py_round2 (Finite (6427481093187830 / 140737488355328)) = float_of (4567 / 100)"
  by (simp add: py_round2_def float_eval)

lemma scaled_example:
  "py_round2 (py_mul (float_of (4567 / 10000)) (float_of 100)) = float_of (4567 / 100)"
  by (simp only: float_of_4567 hundred mul_4567 round_4567)

lemma scaled_quarter: "py_round2 (py_mul (Finite (1 / 4)) (Finite 100)) = Finite 25"
  by (simp add: py_mul_def py_round2_def float_eval)

lemma float_of_1236789:
  "float_of (1236789 / 10000000) = Finite (8912003967257485 / 72057594037927936)"
  by (simp add: float_eval)

lemma mul_1236789:
  "py_mul (Finite (8912003967257485 / 72057594037927936)) (Finite 100)
   = Finite (3481251549709955 / 281474976710656)"
  by (simp add: py_mul_def float_eval)

lemma round_1236789:
  "py_round2 (Finite (3481251549709955 / 281474976710656)) = float_of (1237 / 100)"
  by (simp add: py_round2_def float_eval)

lemma scaled_1236789:
  "py_round2 (py_mul (float_of (1236789 / 10000000)) (Finite 100)) = float_of (1237 / 100)"
  by (simp only: float_of_1236789 mul_1236789 round_1236789)

lemma float_of_62503: "float_of (62503 / 1000) = Finite (4398257617336533 / 70368744177664)"
  by (simp add: float_eval)

lemma round_62503:
  "py_round2 (Finite (4398257617336533 / 70368744177664)) = Finite (125 / 2)"
  by (simp add: py_round2_def float_eval)

lemma round_mem: "py_round2 (float_of (62503 / 1000)) = Finite (125 / 2)"
  by (simp only: float_of_62503 round_62503)

lemma float_of_1237: "float_of (1237 / 100) = Finite (6963690923821629 / 562949953421312)"
  by (simp add: float_eval)

lemma py_round2_NaN: "py_round2 NaN = NaN"
  by (simp add: py_round2_def)

section \<open>The project-wide averages\<close>

lemma first_point_spec: "first_point series = first_available_point series"
  by (induction series) (auto simp: first_available_point_def split: list.splits)

lemma get_project_cpu_avg_result:
  "fst (get_project_cpu_avg w project_id s) =
     (case list_time_series w
             (fst (ts_request_common w project_id
                     ''compute.googleapis.com/instance/cpu/utilization'' s)) of
        Inl e \<Rightarrow> Raises e
      | Inr series \<Rightarrow> Returns (first_point series))"
  by (cases "ts_request_common w project_id
               ''compute.googleapis.com/instance/cpu/utilization'' s")
     (simp add: get_project_cpu_avg_def split: sum.split)

lemma get_project_mem_avg_result:
  "fst (get_project_mem_avg w project_id s) =
     (case list_time_series w
             (fst (ts_request_common w project_id
                     ''agent.googleapis.com/memory/percent_used'' s)) of
        Inl e \<Rightarrow> Raises e
      | Inr series \<Rightarrow> Returns (first_point series))"
  by (cases "ts_request_common w project_id
               ''agent.googleapis.com/memory/percent_used'' s")
     (simp add: get_project_mem_avg_def split: sum.split)

text \<open>
  Claim C2. Whatever list of time series the metrics service returns for the request,
  \<open>get_project_cpu_avg\<close> and \<open>get_project_mem_avg\<close> return the value of the first point of
  the first series, in the order received, that has at least one point; they return
  not-a-number when the list is empty or no series has a point.
\<close>

theorem project_avg_first_available:
  "(list_time_series w
      (fst (ts_request_common w project_id
              ''compute.googleapis.com/instance/cpu/utilization'' s)) = Inr series
    \<longrightarrow> fst (get_project_cpu_avg w project_id s) = Returns (first_available_point series))
   \<and> (list_time_series w
      (fst (ts_request_common w project_id
              ''agent.googleapis.com/memory/percent_used'' s)) = Inr series
    \<longrightarrow> fst (get_project_mem_avg w project_id s) = Returns (first_available_point series))
   \<and> (series = [] \<or> (\<forall>ts \<in> set series. points ts = [])
    \<longrightarrow> first_available_point series = NaN)"
proof (intro conjI impI)
  assume "list_time_series w
      (fst (ts_request_common w project_id
              ''compute.googleapis.com/instance/cpu/utilization'' s)) = Inr series"
  then show "fst (get_project_cpu_avg w project_id s) = Returns (first_available_point series)"
    by (simp add: get_project_cpu_avg_result first_point_spec)
next
  assume "list_time_series w
      (fst (ts_request_common w project_id
              ''agent.googleapis.com/memory/percent_used'' s)) = Inr series"
  then show "fst (get_project_mem_avg w project_id s) = Returns (first_available_point series)"
    by (simp add: get_project_mem_avg_result first_point_spec)
next
  assume "series = [] \<or> (\<forall>ts \<in> set series. points ts = [])"
  then have "find (\<lambda>ts. points ts \<noteq> []) series = None"
    by (auto simp: find_None_iff)
  then show "first_available_point series = NaN"
    by (simp add: first_available_point_def)
qed

theorem project_avg_first_available_witness:
  "fst (get_project_cpu_avg example_world ''km-prod'' state0) = Returns (Finite (1 / 4))
   \<and> fst (get_project_mem_avg example_world ''km-prod'' state0) = Returns (Finite (1 / 4))
   \<and> first_available_point [\<lparr>labels = [], points = []\<rparr>] = NaN"
proof -
  have fa: "first_available_point example_series = Finite (1 / 4)"
    by (simp add: first_available_point_def example_series_def)
  show ?thesis
    using project_avg_first_available [of example_world "''km-prod''" state0 example_series]
      project_avg_first_available [of example_world "''km-prod''" state0
        "[\<lparr>labels = [], points = []\<rparr>]"]
    by (simp add: fa example_world_def)
qed

section \<open>The running-instance listing\<close>

lemma split_nonempty: "split sep s \<noteq> []"
  by (induction s) (auto simp: Let_def)

lemma split_no_sep: "sep \<notin> set s \<Longrightarrow> split sep s = [s]"
  by (induction s) (auto simp: Let_def)

lemma split_has_sep: "sep \<in> set s \<Longrightarrow> tl (split sep s) \<noteq> []"
  by (induction s) (auto simp: Let_def split_nonempty)

lemma last_split: "last (split sep s) = rev (takeWhile (\<lambda>c. c \<noteq> sep) (rev s))"
proof (induction s)
  case Nil
  show ?case by simp
next
  case (Cons c cs)
  show ?case
  proof (cases "sep \<in> set cs")
    case True
    then have stop: "\<exists>x \<in> set (rev cs). \<not> x \<noteq> sep" by simp
    have "last (split sep (c # cs)) = last (split sep cs)"
      using split_has_sep [OF True] split_nonempty [of sep cs]
      by (cases "split sep cs") (auto simp: Let_def)
    moreover have "takeWhile (\<lambda>c. c \<noteq> sep) (rev cs @ [c]) = takeWhile (\<lambda>c. c \<noteq> sep) (rev cs)"
      using stop by (auto simp: takeWhile_append)
    ultimately show ?thesis using Cons by simp
  next
    case False
    show ?thesis
    proof (cases "c = sep")
      case True
      with False show ?thesis
        by (simp add: split_no_sep takeWhile_append)
    next
      case neq: False
      with False show ?thesis
        by (simp add: split_no_sep takeWhile_append)
    qed
  qed
qed

lemma last_segment_spec: "last_segment s = last_path_segment s"
  by (simp add: last_segment_def last_path_segment_def last_split)

lemma vm_of_spec: "vm_of inst = running_record inst"
  by (simp add: vm_of_def running_record_def last_segment_spec)

lemma foldl_append_running:
  "foldl append_running result insts = result @ map vm_of (filter is_running insts)"
  by (induction insts arbitrary: result) (auto simp: append_running_def is_running_def)

lemma scan_items_running:
  "foldl (\<lambda>result (zone, data). foldl append_running result (data_instances data)) result its
   = result @ map vm_of (filter is_running (concat (map (\<lambda>(zone, data). data_instances data) its)))"
  by (induction its arbitrary: result) (auto simp: foldl_append_running)

lemma scan_running_spec:
  "scan_running resp result = result @ map vm_of (filter is_running (page_instances resp))"
  by (simp add: scan_running_def page_instances_def scan_items_running)

lemma running_loop_paged:
  "paged pages \<Longrightarrow>
   running_loop (map Inr pages) result = Returns (result @ map vm_of (running_instances pages))"
proof (induction pages arbitrary: result)
  case Nil
  then show ?case by (simp add: paged_def)
next
  case (Cons resp pages)
  show ?case
  proof (cases "pages = []")
    case True
    with Cons.prems show ?thesis
      by (simp add: paged_def scan_running_spec running_instances_def)
  next
    case False
    with Cons.prems have "has_next resp" "paged pages"
      by (simp_all add: paged_def)
    with Cons.IH show ?thesis
      by (simp add: scan_running_spec running_instances_def)
  qed
qed

lemma running_loop_reaches:
  "reaches_last_page rs \<Longrightarrow> \<exists>vms. running_loop rs result = Returns vms"
  by (induction rs result rule: running_loop.induct) (auto simp: Let_def)

lemma list_running_vms_returns_length:
  "list_running_vms w project_id = Returns (c, vms) \<Longrightarrow> c = int (length vms)"
  by (auto simp: list_running_vms_def split: outcome.splits sum.splits)

lemma list_running_vms_reaches:
  assumes "aggregatedList w project_id = Inr responses" and "reaches_last_page responses"
  shows "\<exists>vms. list_running_vms w project_id = Returns (int (length vms), vms)"
proof -
  obtain vms where "running_loop responses [] = Returns vms"
    using assms(2) running_loop_reaches by blast
  then show ?thesis
    using assms(1) by (simp add: list_running_vms_def)
qed

text \<open>
  Claim C10. Whenever \<open>list_running_vms\<close> returns, the count that is the first component
  of its result is the length of the list that is the second; and it does return when the
  responses of the inventory service to the request reach a page without continuation
  token before any error.
\<close>

theorem list_running_vms_count_is_length:
  "(\<forall>c vms. list_running_vms w project_id = Returns (c, vms) \<longrightarrow> c = int (length vms))
   \<and> (aggregatedList w project_id = Inr responses \<and> reaches_last_page responses
        \<longrightarrow> (\<exists>vms. list_running_vms w project_id = Returns (int (length vms), vms)))"
proof (intro conjI allI impI)
  fix c vms
  assume "list_running_vms w project_id = Returns (c, vms)"
  then show "c = int (length vms)"
    by (rule list_running_vms_returns_length)
next
  assume a: "aggregatedList w project_id = Inr responses \<and> reaches_last_page responses"
  then obtain vms where "running_loop responses [] = Returns vms"
    using running_loop_reaches by blast
  then show "\<exists>vms. list_running_vms w project_id = Returns (int (length vms), vms)"
    using a by (simp add: list_running_vms_def)
qed

text \<open>
  Claim C8. When the inventory service answers with a sequence of pages of which the last
  one, and only that one, has no continuation token, \<open>list_running_vms\<close> returns the
  instances of all pages whose status is \<open>RUNNING\<close>, in the order received and with their
  count, each as a record whose zone and machine type are the last path segment of the
  resource paths; when no instance occurs twice in the pages, none occurs twice in the
  result.
\<close>

theorem list_running_vms_all_pages:
  assumes "aggregatedList w project_id = Inr (map Inr pages)" and "paged pages"
  shows "list_running_vms w project_id =
           Returns (int (length (running_instances pages)),
                    map running_record (running_instances pages))
         \<and> set (running_instances pages) =
             {inst \<in> (\<Union>resp \<in> set pages. set (page_instances resp)).
                instance_status inst = Some ''RUNNING''}
         \<and> (distinct (concat (map page_instances pages))
              \<longrightarrow> distinct (running_instances pages))"
proof (intro conjI impI)
  have "map vm_of (running_instances pages) = map running_record (running_instances pages)"
    by (simp add: vm_of_spec)
  then show "list_running_vms w project_id =
           Returns (int (length (running_instances pages)),
                    map running_record (running_instances pages))"
    using assms by (simp add: list_running_vms_def running_loop_paged)
next
  show "set (running_instances pages) =
             {inst \<in> (\<Union>resp \<in> set pages. set (page_instances resp)).
                instance_status inst = Some ''RUNNING''}"
    by (auto simp: running_instances_def is_running_def)
next
  assume "distinct (concat (map page_instances pages))"
  then show "distinct (running_instances pages)"
    by (simp add: running_instances_def)
qed

lemma example_pages_paged: "paged example_pages"
  by (simp add: paged_def example_pages_def has_next_def)

lemma example_pages_running: "running_instances example_pages = [web1, web2]"
  by (simp add: running_instances_def example_pages_def page_instances_def resp_items_def
      data_instances_def is_running_def web1_def web2_def db1_def)

lemma example_running_records:
  "map running_record [web1, web2] =
     [\<lparr>vm_name = ''web-1'', vm_zone = ''us-central1-a'', vm_machineType = ''e2-medium'',
       vm_id = Some ''123''\<rparr>,
      \<lparr>vm_name = ''web-2'', vm_zone = [], vm_machineType = ''e2-small'',
       vm_id = Some ''789''\<rparr>]"
  by (simp add: running_record_def web1_def web2_def last_path_segment_def get_or_empty_def)

theorem list_running_vms_all_pages_witness:
  "aggregatedList paged_world ''km-prod'' = Inr (map Inr example_pages) \<and> paged example_pages
   \<and> list_running_vms paged_world ''km-prod'' =
       Returns (2,
         [\<lparr>vm_name = ''web-1'', vm_zone = ''us-central1-a'', vm_machineType = ''e2-medium'',
           vm_id = Some ''123''\<rparr>,
          \<lparr>vm_name = ''web-2'', vm_zone = [], vm_machineType = ''e2-small'',
           vm_id = Some ''789''\<rparr>])"
proof -
  have a: "aggregatedList paged_world ''km-prod'' = Inr (map Inr example_pages)"
    by (simp add: paged_world_def)
  show ?thesis
    using list_running_vms_all_pages [OF a example_pages_paged] a example_pages_paged
      example_running_records
    by (simp add: example_pages_running)
qed

theorem list_running_vms_count_is_length_witness:
  "aggregatedList paged_world ''km-prod'' = Inr (map Inr example_pages)
   \<and> reaches_last_page (map Inr example_pages)
   \<and> (\<exists>vms. list_running_vms paged_world ''km-prod'' = Returns (int (length vms), vms))"
proof -
  have a: "aggregatedList paged_world ''km-prod'' = Inr (map Inr example_pages)"
    by (simp add: paged_world_def)
  have r: "reaches_last_page (map Inr example_pages)"
    by (simp add: example_pages_def has_next_def)
  show ?thesis
    using list_running_vms_count_is_length
            [of paged_world "''km-prod''" "map Inr example_pages"] a r
    by blast
qed

section \<open>The per-instance breakdown\<close>

lemma append_row_spec:
  "append_row name_map mem rows item =
     rows @ (if known name_map item then [joined_row name_map mem item] else [])"
proof -
  obtain inst_id zone cpu_val where item: "item = ((inst_id, zone), cpu_val)"
    by (metis prod.collapse)
  show ?thesis
    by (cases "map_of name_map (Some inst_id)"; cases "map_of mem (inst_id, zone)")
       (simp_all add: item append_row_def known_def joined_row_def py_round2_NaN)
qed

lemma foldl_append_row:
  "foldl (append_row name_map mem) rows cpu =
     rows @ map (joined_row name_map mem) (filter (known name_map) cpu)"
  by (induction cpu arbitrary: rows) (simp_all add: append_row_spec)

lemma join_rows_spec:
  "join_rows cpu mem name_map = map (joined_row name_map mem) (filter (known name_map) cpu)"
  by (simp add: join_rows_def foldl_append_row)

lemma breakdown_result:
  "fst (get_per_instance_breakdown w project_id s) =
     (case breakdown_fetch w project_id s ''compute.googleapis.com/instance/cpu/utilization'' of
        Raises e \<Rightarrow> Raises e
      | Hangs \<Rightarrow> Hangs
      | Returns cpu \<Rightarrow>
          (case breakdown_fetch w project_id s ''agent.googleapis.com/memory/percent_used'' of
             Raises e \<Rightarrow> Raises e
           | Hangs \<Rightarrow> Hangs
           | Returns mem \<Rightarrow>
               (case breakdown_names w project_id of
                  Raises e \<Rightarrow> Raises e
                | Hangs \<Rightarrow> Hangs
                | Returns name_map \<Rightarrow> Returns (join_rows cpu mem name_map))))"
  by (simp add: get_per_instance_breakdown_def breakdown_fetch_def breakdown_names_def
      now_interval_def Let_def split: outcome.split sum.split)

lemma breakdown_join:
  assumes "breakdown_fetch w project_id s
             ''compute.googleapis.com/instance/cpu/utilization'' = Returns cpu"
    and "breakdown_fetch w project_id s
             ''agent.googleapis.com/memory/percent_used'' = Returns mem"
    and "breakdown_names w project_id = Returns name_map"
  shows "fst (get_per_instance_breakdown w project_id s) = Returns (join_rows cpu mem name_map)"
  using assms by (simp add: breakdown_result)

lemma join_rows_known_only:
  "join_rows (filter (known name_map) cpu) mem name_map = join_rows cpu mem name_map"
  by (simp add: join_rows_spec)

lemma map_of_filter_key:
  "P k \<Longrightarrow> map_of (filter (\<lambda>kv. P (fst kv)) xs) k = map_of xs k"
  by (induction xs) auto

lemma joined_row_mem_restrict:
  "item \<in> set cpu \<Longrightarrow>
   joined_row name_map (filter (\<lambda>kv. fst kv \<in> fst ` set cpu) mem) item
   = joined_row name_map mem item"
  by (simp add: joined_row_def map_of_filter_key [where P = "\<lambda>k. k \<in> fst ` set cpu"])

lemma join_rows_mem_restrict:
  "join_rows cpu (filter (\<lambda>kv. fst kv \<in> fst ` set cpu) mem) name_map
   = join_rows cpu mem name_map"
  by (simp add: join_rows_spec joined_row_mem_restrict)

text \<open>
  Claim C3. When the two metric fetches and the inventory listing of one call of
  \<open>get_per_instance_breakdown\<close> return, the rows of the result correspond one to one,
  in order, to the keys of the CPU map whose instance id appears in the VM record map of
  that call, each row carrying the record of its id; the keys whose id is absent add
  nothing, so that the result is the one for the CPU map without them, and it is empty
  when every id is absent.
\<close>

theorem orphan_metrics_dropped:
  assumes "breakdown_fetch w project_id s
             ''compute.googleapis.com/instance/cpu/utilization'' = Returns cpu"
    and "breakdown_fetch w project_id s
             ''agent.googleapis.com/memory/percent_used'' = Returns mem"
    and "breakdown_names w project_id = Returns name_map"
  shows "\<exists>rows. fst (get_per_instance_breakdown w project_id s) = Returns rows
           \<and> list_all2
                (\<lambda>row item. \<exists>record. map_of name_map (Some (fst (fst item))) = Some record
                   \<and> row_instance row = meta_name record
                   \<and> row_zone row = meta_zone record
                   \<and> row_machineType row = meta_machineType record)
                rows (filter (known name_map) cpu)
           \<and> rows = join_rows (filter (known name_map) cpu) mem name_map
           \<and> ((\<forall>item \<in> set cpu. map_of name_map (Some (fst (fst item))) = None) \<longrightarrow> rows = [])"
proof -
  let ?rows = "join_rows cpu mem name_map"
  have "fst (get_per_instance_breakdown w project_id s) = Returns ?rows"
    using assms by (rule breakdown_join)
  moreover have "list_all2
                (\<lambda>row item. \<exists>record. map_of name_map (Some (fst (fst item))) = Some record
                   \<and> row_instance row = meta_name record
                   \<and> row_zone row = meta_zone record
                   \<and> row_machineType row = meta_machineType record)
                ?rows (filter (known name_map) cpu)"
    by (auto simp: join_rows_spec list_all2_map1 list_all2_same known_def joined_row_def Let_def)
  moreover have "?rows = join_rows (filter (known name_map) cpu) mem name_map"
    by (simp add: join_rows_known_only)
  moreover have "(\<forall>item \<in> set cpu. map_of name_map (Some (fst (fst item))) = None)
                   \<longrightarrow> ?rows = []"
    by (auto simp: join_rows_spec known_def filter_empty_conv)
  ultimately show ?thesis by blast
qed

text \<open>
  Claim C4. When the two metric fetches and the inventory listing of one call of
  \<open>get_per_instance_breakdown\<close> return, the rows of the result correspond one to one,
  in order, to the keys of the CPU map whose instance id appears in the VM record map. In
  each row \<open>cpu_utilization_pct\<close> is the CPU sample multiplied by 100, rounded to two
  decimals: the float nearest to the two-place decimal nearest to the product. And
  \<open>memory_used_pct\<close> is the memory sample under the same (instance id, zone) key rounded
  to two decimals in the same way, or not-a-number when the memory map has no such key.
  For the CPU sample 0.4567 the row has 45.67.
\<close>

theorem row_percentages:
  assumes "breakdown_fetch w project_id s
             ''compute.googleapis.com/instance/cpu/utilization'' = Returns cpu"
    and "breakdown_fetch w project_id s
             ''agent.googleapis.com/memory/percent_used'' = Returns mem"
    and "breakdown_names w project_id = Returns name_map"
  shows "\<exists>rows. fst (get_per_instance_breakdown w project_id s) = Returns rows
           \<and> list_all2
                (\<lambda>row item.
                   rounded_to_2_decimals (py_mul (snd item) (float_of 100))
                     (cpu_utilization_pct row)
                   \<and> (case map_of mem (fst item) of
                         None \<Rightarrow> memory_used_pct row = NaN
                       | Some v \<Rightarrow> rounded_to_2_decimals v (memory_used_pct row))
                   \<and> (snd item = float_of (4567 / 10000)
                        \<longrightarrow> cpu_utilization_pct row = float_of (4567 / 100)))
                rows (filter (known name_map) cpu)"
proof -
  have "fst (get_per_instance_breakdown w project_id s) = Returns (join_rows cpu mem name_map)"
    using assms by (rule breakdown_join)
  moreover have "list_all2
                (\<lambda>row item.
                   rounded_to_2_decimals (py_mul (snd item) (float_of 100))
                     (cpu_utilization_pct row)
                   \<and> (case map_of mem (fst item) of
                         None \<Rightarrow> memory_used_pct row = NaN
                       | Some v \<Rightarrow> rounded_to_2_decimals v (memory_used_pct row))
                   \<and> (snd item = float_of (4567 / 10000)
                        \<longrightarrow> cpu_utilization_pct row = float_of (4567 / 100)))
                (join_rows cpu mem name_map) (filter (known name_map) cpu)"
    using scaled_example
    by (auto simp: join_rows_spec list_all2_map1 list_all2_same joined_row_def Let_def hundred
        py_round2_rounds split: option.split)
  ultimately show ?thesis by blast
qed

text \<open>
  Claim C7. The rows are those joined for the keys of the CPU map, so a key that is in the
  memory map only produces no row: the result is the same when the memory map is
  restricted to the keys of the CPU map, and has at most as many rows as the CPU map has
  keys.
\<close>

theorem memory_only_keys_dropped:
  assumes "breakdown_fetch w project_id s
             ''compute.googleapis.com/instance/cpu/utilization'' = Returns cpu"
    and "breakdown_fetch w project_id s
             ''agent.googleapis.com/memory/percent_used'' = Returns mem"
    and "breakdown_names w project_id = Returns name_map"
  shows "\<exists>rows. fst (get_per_instance_breakdown w project_id s) = Returns rows
           \<and> rows = map (joined_row name_map mem) (filter (known name_map) cpu)
           \<and> rows = join_rows cpu (filter (\<lambda>kv. fst kv \<in> fst ` set cpu) mem) name_map
           \<and> length rows \<le> length cpu"
proof -
  have "fst (get_per_instance_breakdown w project_id s) = Returns (join_rows cpu mem name_map)"
    using assms by (rule breakdown_join)
  moreover have "join_rows cpu mem name_map
                   = map (joined_row name_map mem) (filter (known name_map) cpu)"
    by (rule join_rows_spec)
  moreover have "join_rows cpu mem name_map
                   = join_rows cpu (filter (\<lambda>kv. fst kv \<in> fst ` set cpu) mem) name_map"
    by (simp add: join_rows_mem_restrict)
  moreover have "length (join_rows cpu mem name_map) \<le> length cpu"
    by (simp add: join_rows_spec)
  ultimately show ?thesis by blast
qed

lemma example_cpu_fetch:
  "breakdown_fetch breakdown_world ''km-prod'' state0
     ''compute.googleapis.com/instance/cpu/utilization'' = Returns example_cpu"
  by (simp add: breakdown_fetch_def fetch_def breakdown_world_def cpu_series_def store_point_def
      label_def example_cpu_def Let_def)

lemma example_mem_fetch:
  "breakdown_fetch breakdown_world ''km-prod'' state0
     ''agent.googleapis.com/memory/percent_used'' = Returns example_mem"
  by (simp add: breakdown_fetch_def fetch_def breakdown_world_def mem_series_def store_point_def
      label_def example_mem_def metric_filter_def Let_def)

lemma example_names:
  "breakdown_names breakdown_world ''km-prod'' = Returns example_name_map"
  by (simp add: breakdown_names_def breakdown_world_def example_pages_def has_next_def
      scan_names_def resp_items_def
      data_instances_def store_meta_def web1_def db1_def web2_def example_name_map_def
      last_segment_spec last_path_segment_def get_or_empty_def)

lemma example_known:
  "filter (known example_name_map) example_cpu
     = [((''123'', ''us-central1-a''), float_of (4567 / 10000)),
        ((''456'', ''europe-west1-b''), float_of (1236789 / 10000000))]"
  by (simp add: known_def example_name_map_def example_cpu_def)

lemma example_join: "join_rows example_cpu example_mem example_name_map = example_rows"
proof -
  have "join_rows example_cpu example_mem example_name_map
          = map (joined_row example_name_map example_mem)
              [((''123'', ''us-central1-a''), float_of (4567 / 10000)),
               ((''456'', ''europe-west1-b''), float_of (1236789 / 10000000))]"
    by (simp only: join_rows_spec example_known)
  also have "\<dots> = example_rows"
    using scaled_example
    by (simp add: joined_row_def example_name_map_def example_mem_def example_rows_def hundred
        scaled_1236789 round_mem)
  finally show ?thesis .
qed

theorem orphan_metrics_dropped_witness:
  "breakdown_fetch breakdown_world ''km-prod'' state0
     ''compute.googleapis.com/instance/cpu/utilization'' = Returns example_cpu
   \<and> breakdown_fetch breakdown_world ''km-prod'' state0
     ''agent.googleapis.com/memory/percent_used'' = Returns example_mem
   \<and> breakdown_names breakdown_world ''km-prod'' = Returns example_name_map
   \<and> map_of example_name_map (Some ''999'') = None
   \<and> fst (get_per_instance_breakdown breakdown_world ''km-prod'' state0) = Returns example_rows"
proof -
  have "map_of example_name_map (Some ''999'') = None"
    by (simp add: example_name_map_def)
  moreover have "join_rows (filter (known example_name_map) example_cpu) example_mem
                   example_name_map = example_rows"
    by (simp add: join_rows_known_only example_join)
  ultimately show ?thesis
    using orphan_metrics_dropped [OF example_cpu_fetch example_mem_fetch example_names]
      example_cpu_fetch example_mem_fetch example_names
    by auto
qed

lemma rounds_to_1237:
  "rounded_to_2_decimals (py_mul (float_of (1236789 / 10000000)) (float_of 100))
     (float_of (1237 / 100))"
  using py_round2_rounds [of "py_mul (float_of (1236789 / 10000000)) (float_of 100)"]
  by (simp only: hundred scaled_1236789)

lemma rounds_to_6250: "rounded_to_2_decimals (float_of (62503 / 1000)) (Finite (125 / 2))"
  using py_round2_rounds [of "float_of (62503 / 1000)"] by (simp only: round_mem)

theorem row_percentages_witness:
  "breakdown_fetch breakdown_world ''km-prod'' state0
     ''compute.googleapis.com/instance/cpu/utilization'' = Returns example_cpu
   \<and> breakdown_fetch breakdown_world ''km-prod'' state0
     ''agent.googleapis.com/memory/percent_used'' = Returns example_mem
   \<and> breakdown_names breakdown_world ''km-prod'' = Returns example_name_map
   \<and> fst (get_per_instance_breakdown breakdown_world ''km-prod'' state0) = Returns example_rows
   \<and> py_mul (float_of (1236789 / 10000000)) (float_of 100) \<noteq> float_of (1237 / 100)
   \<and> map cpu_utilization_pct example_rows = [float_of (4567 / 100), float_of (1237 / 100)]
   \<and> float_of (62503 / 1000) \<noteq> Finite (125 / 2)
   \<and> map memory_used_pct example_rows = [Finite (125 / 2), NaN]"
proof -
  have rows: "fst (get_per_instance_breakdown breakdown_world ''km-prod'' state0)
          = Returns example_rows"
    using breakdown_join [OF example_cpu_fetch example_mem_fetch example_names]
    by (simp add: example_join)
  have "list_all2
          (\<lambda>row item.
             rounded_to_2_decimals (py_mul (snd item) (float_of 100)) (cpu_utilization_pct row)
             \<and> (case map_of example_mem (fst item) of
                   None \<Rightarrow> memory_used_pct row = NaN
                 | Some v \<Rightarrow> rounded_to_2_decimals v (memory_used_pct row))
             \<and> (snd item = float_of (4567 / 10000)
                  \<longrightarrow> cpu_utilization_pct row = float_of (4567 / 100)))
          example_rows (filter (known example_name_map) example_cpu)"
    using row_percentages [OF example_cpu_fetch example_mem_fetch example_names] rows by simp
  then obtain r1 r2 where ex: "example_rows = [r1, r2]"
    and c1: "cpu_utilization_pct r1 = float_of (4567 / 100)"
    and m1: "rounded_to_2_decimals (float_of (62503 / 1000)) (memory_used_pct r1)"
    and c2: "rounded_to_2_decimals (py_mul (float_of (1236789 / 10000000)) (float_of 100))
               (cpu_utilization_pct r2)"
    and m2: "memory_used_pct r2 = NaN"
    by (auto simp: example_known example_mem_def list_all2_Cons2)
  have "cpu_utilization_pct r2 = float_of (1237 / 100)"
    using c2 rounds_to_1237 by (rule rounded_to_2_decimals_unique)
  moreover have "memory_used_pct r1 = Finite (125 / 2)"
    using m1 rounds_to_6250 by (rule rounded_to_2_decimals_unique)
  moreover have "py_mul (float_of (1236789 / 10000000)) (float_of 100) \<noteq> float_of (1237 / 100)"
    by (simp add: hundred float_of_1236789 mul_1236789 float_of_1237)
  moreover have "float_of (62503 / 1000) \<noteq> Finite (125 / 2)"
    by (simp add: float_of_62503)
  ultimately show ?thesis
    using rows c1 m2 example_cpu_fetch example_mem_fetch example_names
    by (simp add: ex)
qed

theorem memory_only_keys_dropped_witness:
  "breakdown_fetch breakdown_world ''km-prod'' state0
     ''compute.googleapis.com/instance/cpu/utilization'' = Returns example_cpu
   \<and> breakdown_fetch breakdown_world ''km-prod'' state0
     ''agent.googleapis.com/memory/percent_used'' = Returns example_mem
   \<and> breakdown_names breakdown_world ''km-prod'' = Returns example_name_map
   \<and> (''789'', ''us-central1-a'') \<in> fst ` set example_mem
   \<and> (''789'', ''us-central1-a'') \<notin> fst ` set example_cpu
   \<and> map_of example_name_map (Some ''789'') \<noteq> None
   \<and> fst (get_per_instance_breakdown breakdown_world ''km-prod'' state0) = Returns example_rows
   \<and> ''web-2'' \<notin> set (map row_instance example_rows)"
proof -
  have "(''789'', ''us-central1-a'') \<in> fst ` set example_mem"
    by (simp add: example_mem_def)
  moreover have "(''789'', ''us-central1-a'') \<notin> fst ` set example_cpu"
    by (simp add: example_cpu_def)
  moreover have "map_of example_name_map (Some ''789'') \<noteq> None"
    by (simp add: example_name_map_def)
  moreover have "''web-2'' \<notin> set (map row_instance example_rows)"
    by (simp add: example_rows_def)
  moreover have "map (joined_row example_name_map example_mem)
                   (filter (known example_name_map) example_cpu) = example_rows"
    using example_join by (simp add: join_rows_spec)
  ultimately show ?thesis
    using memory_only_keys_dropped [OF example_cpu_fetch example_mem_fetch example_names]
      example_cpu_fetch example_mem_fetch example_names
    by auto
qed

lemma stopped_cpu_fetch:
  "breakdown_fetch stopped_world ''km-prod'' state0
     ''compute.googleapis.com/instance/cpu/utilization''
     = Returns [((''456'', ''europe-west1-b''), Finite (1 / 4))]"
  by (simp add: breakdown_fetch_def fetch_def stopped_world_def store_point_def label_def Let_def)

lemma stopped_mem_fetch:
  "breakdown_fetch stopped_world ''km-prod'' state0
     ''agent.googleapis.com/memory/percent_used'' = Returns []"
  by (simp add: breakdown_fetch_def fetch_def stopped_world_def metric_filter_def Let_def)

lemma stopped_names:
  "breakdown_names stopped_world ''km-prod''
     = Returns [(Some ''456'',
                 \<lparr>meta_name = ''db-1'', meta_zone = ''europe-west1-b'',
                  meta_machineType = ''n1-standard-1''\<rparr>)]"
  by (simp add: breakdown_names_def stopped_world_def stopped_pages_def has_next_def
      scan_names_def resp_items_def
      data_instances_def store_meta_def db1_def last_segment_spec last_path_segment_def
      get_or_empty_def)

text \<open>
  Claim C5, evaluated on a project whose only instance is stopped but still has a CPU
  sample in the window: no instance is running and \<open>list_running_vms\<close> returns count 0
  and the empty list, yet \<open>get_per_instance_breakdown\<close> returns a row for the stopped
  instance.
\<close>

theorem breakdown_reports_stopped_instance:
  "running_instances stopped_pages = []
   \<and> list_running_vms stopped_world ''km-prod'' = Returns (0, [])
   \<and> fst (get_per_instance_breakdown stopped_world ''km-prod'' state0)
       = Returns [\<lparr>row_instance = ''db-1'', row_zone = ''europe-west1-b'',
                   row_machineType = ''n1-standard-1'',
                   cpu_utilization_pct = Finite 25, memory_used_pct = NaN\<rparr>]"
proof -
  have r: "running_instances stopped_pages = []"
    by (simp add: running_instances_def stopped_pages_def page_instances_def resp_items_def
        data_instances_def is_running_def db1_def)
  have p: "paged stopped_pages"
    by (simp add: paged_def stopped_pages_def has_next_def)
  have "list_running_vms stopped_world ''km-prod'' = Returns (0, [])"
    by (simp add: list_running_vms_def stopped_world_def running_loop_paged [OF p] r)
  moreover have "fst (get_per_instance_breakdown stopped_world ''km-prod'' state0)
       = Returns [\<lparr>row_instance = ''db-1'', row_zone = ''europe-west1-b'',
                   row_machineType = ''n1-standard-1'',
                   cpu_utilization_pct = Finite 25, memory_used_pct = NaN\<rparr>]"
    using breakdown_join [OF stopped_cpu_fetch stopped_mem_fetch stopped_names]
    by (simp add: join_rows_spec known_def joined_row_def scaled_quarter)
  ultimately show ?thesis using r by simp
qed

section \<open>The web form\<close>

lemma snd_ts_request_common: "snd (ts_request_common w project_id metric_type s) = tick s"
  by (simp add: ts_request_common_def now_interval_def Let_def tick_def)

lemma snd_get_project_cpu_avg: "snd (get_project_cpu_avg w project_id s) = tick s"
  using snd_ts_request_common
    [of w project_id "''compute.googleapis.com/instance/cpu/utilization''" s]
  by (cases "ts_request_common w project_id
               ''compute.googleapis.com/instance/cpu/utilization'' s")
     (simp add: get_project_cpu_avg_def split: sum.split)

lemma snd_get_project_mem_avg: "snd (get_project_mem_avg w project_id s) = tick s"
  using snd_ts_request_common
    [of w project_id "''agent.googleapis.com/memory/percent_used''" s]
  by (cases "ts_request_common w project_id
               ''agent.googleapis.com/memory/percent_used'' s")
     (simp add: get_project_mem_avg_def split: sum.split)

lemma snd_get_per_instance_breakdown:
  "snd (get_per_instance_breakdown w project_id s) = tick s"
  by (simp add: get_per_instance_breakdown_def now_interval_def Let_def tick_def
      split: outcome.split sum.split)

lemma get_project_cpu_avg_pair:
  "get_project_cpu_avg w project_id s = (fst (get_project_cpu_avg w project_id s), tick s)"
  by (metis prod.collapse snd_get_project_cpu_avg)

lemma get_project_mem_avg_pair:
  "get_project_mem_avg w project_id s = (fst (get_project_mem_avg w project_id s), tick s)"
  by (metis prod.collapse snd_get_project_mem_avg)

lemma get_per_instance_breakdown_pair:
  "get_per_instance_breakdown w project_id s
     = (fst (get_per_instance_breakdown w project_id s), tick s)"
  by (metis prod.collapse snd_get_per_instance_breakdown)

lemma and_then_Returns: "and_then (Returns a, s) f = f a s"
  by (simp add: and_then_def)

lemma and_then_Raises: "and_then (Raises e, s) f = (Raises e, s)"
  by (simp add: and_then_def)

lemma and_then_Hangs: "and_then (Hangs, s) f = (Hangs, s)"
  by (simp add: and_then_def)

lemmas and_then_simps = and_then_Returns and_then_Raises and_then_Hangs

lemma index_outcome:
  assumes "pid \<noteq> []"
  shows "fst (index w (Some pid) s) =
     (case fst (get_project_cpu_avg w pid s) of
        Returns cpu_avg \<Rightarrow>
          (case fst (get_project_mem_avg w pid (tick s)) of
             Returns mem_avg \<Rightarrow>
               (case list_running_vms w pid of
                  Returns (vm_count, vms) \<Rightarrow>
                    (case fst (get_per_instance_breakdown w pid (tick (tick s))) of
                       Returns per_instance \<Rightarrow>
                         Returns
                           \<lparr>tmpl_projects = app_PROJECTS,
                            tmpl_result =
                              Some \<lparr>result_project = pid,
                                    result_cpu_avg =
                                      (if py_eq_self cpu_avg
                                       then fmt_2f (py_mul cpu_avg (Finite 100)) @ ''%''
                                       else ''N/A''),
                                    result_mem_avg =
                                      (if py_eq_self mem_avg then fmt_2f mem_avg @ ''%''
                                       else ''N/A''),
                                    result_vm_count = vm_count,
                                    result_instances = per_instance\<rparr>\<rparr>
                     | Raises e \<Rightarrow> Raises e
                     | Hangs \<Rightarrow> Hangs)
                | Raises e \<Rightarrow> Raises e
                | Hangs \<Rightarrow> Hangs)
           | Raises e \<Rightarrow> Raises e
           | Hangs \<Rightarrow> Hangs)
      | Raises e \<Rightarrow> Raises e
      | Hangs \<Rightarrow> Hangs)"
proof -
  obtain c where c: "get_project_cpu_avg w pid s = (c, tick s)"
    using get_project_cpu_avg_pair by blast
  obtain m where m: "get_project_mem_avg w pid (tick s) = (m, tick (tick s))"
    using get_project_mem_avg_pair by blast
  obtain b where b: "get_per_instance_breakdown w pid (tick (tick s))
                       = (b, tick (tick (tick s)))"
    using get_per_instance_breakdown_pair by blast
  show ?thesis
    using assms
    by (simp add: index_def c m b and_then_def split: outcome.split prod.split)
qed

text \<open>
  Claim C6, as amended. \<open>index\<close> never compares the project id of the form with the list
  of six identifiers, which it only hands to the page template. It computes no result
  when the form has no project id or an empty one. For a non-empty project id, listed or
  not, it computes the result for that id when the project-wide CPU query, the
  project-wide memory query, the running-instance listing and the per-instance breakdown
  all return; and whenever a result is rendered, it is the result for the project id of
  the form, which is not empty, and these four calls have returned. So no result is
  computed for an id for which one of them raises, as the inventory client does for an id
  it refuses.
\<close>

theorem index_result_iff_calls_return:
  "(project_id = None \<or> project_id = Some []
      \<longrightarrow> index w project_id s
            = (Returns \<lparr>tmpl_projects = app_PROJECTS, tmpl_result = None\<rparr>, s))
   \<and> (pid \<noteq> []
        \<and> fst (get_project_cpu_avg w pid s) = Returns cpu_avg
        \<and> fst (get_project_mem_avg w pid (tick s)) = Returns mem_avg
        \<and> list_running_vms w pid = Returns (vm_count, vms)
        \<and> fst (get_per_instance_breakdown w pid (tick (tick s))) = Returns per_instance
      \<longrightarrow> fst (index w (Some pid) s)
            = Returns
                \<lparr>tmpl_projects = app_PROJECTS,
                 tmpl_result =
                   Some \<lparr>result_project = pid,
                         result_cpu_avg =
                           (if py_eq_self cpu_avg
                            then fmt_2f (py_mul cpu_avg (Finite 100)) @ ''%'' else ''N/A''),
                         result_mem_avg =
                           (if py_eq_self mem_avg then fmt_2f mem_avg @ ''%'' else ''N/A''),
                         result_vm_count = vm_count,
                         result_instances = per_instance\<rparr>\<rparr>)
   \<and> (fst (index w project_id s) = Returns t \<and> tmpl_result t = Some r
      \<longrightarrow> project_id = Some (result_project r) \<and> result_project r \<noteq> []
          \<and> (\<exists>c m vms. fst (get_project_cpu_avg w (result_project r) s) = Returns c
                \<and> fst (get_project_mem_avg w (result_project r) (tick s)) = Returns m
                \<and> list_running_vms w (result_project r) = Returns (result_vm_count r, vms)
                \<and> fst (get_per_instance_breakdown w (result_project r) (tick (tick s)))
                    = Returns (result_instances r)))"
proof -
  have none: "project_id = None \<or> project_id = Some []
      \<longrightarrow> index w project_id s
            = (Returns \<lparr>tmpl_projects = app_PROJECTS, tmpl_result = None\<rparr>, s)"
    by (auto simp: index_def)
  have computed: "pid \<noteq> []
        \<and> fst (get_project_cpu_avg w pid s) = Returns cpu_avg
        \<and> fst (get_project_mem_avg w pid (tick s)) = Returns mem_avg
        \<and> list_running_vms w pid = Returns (vm_count, vms)
        \<and> fst (get_per_instance_breakdown w pid (tick (tick s))) = Returns per_instance
      \<longrightarrow> fst (index w (Some pid) s)
            = Returns
                \<lparr>tmpl_projects = app_PROJECTS,
                 tmpl_result =
                   Some \<lparr>result_project = pid,
                         result_cpu_avg =
                           (if py_eq_self cpu_avg
                            then fmt_2f (py_mul cpu_avg (Finite 100)) @ ''%'' else ''N/A''),
                         result_mem_avg =
                           (if py_eq_self mem_avg then fmt_2f mem_avg @ ''%'' else ''N/A''),
                         result_vm_count = vm_count,
                         result_instances = per_instance\<rparr>\<rparr>"
    by (simp add: index_outcome)
  have only: "fst (index w project_id s) = Returns t \<and> tmpl_result t = Some r
      \<longrightarrow> project_id = Some (result_project r) \<and> result_project r \<noteq> []
          \<and> (\<exists>c m vms. fst (get_project_cpu_avg w (result_project r) s) = Returns c
                \<and> fst (get_project_mem_avg w (result_project r) (tick s)) = Returns m
                \<and> list_running_vms w (result_project r) = Returns (result_vm_count r, vms)
                \<and> fst (get_per_instance_breakdown w (result_project r) (tick (tick s)))
                    = Returns (result_instances r))"
  proof
    assume a: "fst (index w project_id s) = Returns t \<and> tmpl_result t = Some r"
    then obtain pid' where pid: "project_id = Some pid'" "pid' \<noteq> []"
      by (cases project_id) (auto simp: index_def split: if_splits)
    have "fst (index w (Some pid') s) = Returns t"
      using a pid by simp
    then have "pid' = result_project r
          \<and> (\<exists>c m vms. fst (get_project_cpu_avg w pid' s) = Returns c
                \<and> fst (get_project_mem_avg w pid' (tick s)) = Returns m
                \<and> list_running_vms w pid' = Returns (result_vm_count r, vms)
                \<and> fst (get_per_instance_breakdown w pid' (tick (tick s)))
                    = Returns (result_instances r))"
      using a pid(2)
      by (auto simp: index_outcome split: outcome.splits prod.splits)
    then show "project_id = Some (result_project r) \<and> result_project r \<noteq> []
          \<and> (\<exists>c m vms. fst (get_project_cpu_avg w (result_project r) s) = Returns c
                \<and> fst (get_project_mem_avg w (result_project r) (tick s)) = Returns m
                \<and> list_running_vms w (result_project r) = Returns (result_vm_count r, vms)
                \<and> fst (get_per_instance_breakdown w (result_project r) (tick (tick s)))
                    = Returns (result_instances r))"
      using pid by auto
  qed
  show ?thesis
    using none computed only by (intro conjI)
qed

lemma paged_world_running:
  "project_id \<noteq> ''KM-PROD'' \<Longrightarrow>
   list_running_vms paged_world project_id = Returns (2, map vm_of [web1, web2])"
  by (simp add: list_running_vms_def paged_world_def running_loop_paged [OF example_pages_paged]
      example_pages_running)

lemma paged_world_names:
  "project_id \<noteq> ''KM-PROD'' \<Longrightarrow>
   \<exists>name_map. breakdown_names paged_world project_id = Returns name_map"
  by (simp add: breakdown_names_def paged_world_def example_pages_def has_next_def)

lemma paged_world_breakdown:
  assumes "project_id \<noteq> ''KM-PROD''"
  shows "get_per_instance_breakdown paged_world project_id s = (Returns [], tick s)"
proof -
  have "breakdown_fetch paged_world project_id s metric_type = Returns []" for metric_type
    by (simp add: breakdown_fetch_def fetch_def paged_world_def)
  then have "fst (get_per_instance_breakdown paged_world project_id s) = Returns []"
    using paged_world_names [OF assms]
    by (auto simp: breakdown_result join_rows_def)
  then show ?thesis
    by (metis get_per_instance_breakdown_pair)
qed

lemma paged_world_cpu_avg:
  "get_project_cpu_avg paged_world project_id s = (Returns NaN, tick s)"
  using get_project_cpu_avg_result [of paged_world project_id s]
    get_project_cpu_avg_pair [of paged_world project_id s]
  by (simp add: paged_world_def)

lemma paged_world_mem_avg:
  "get_project_mem_avg paged_world project_id s = (Returns NaN, tick s)"
  using get_project_mem_avg_result [of paged_world project_id s]
    get_project_mem_avg_pair [of paged_world project_id s]
  by (simp add: paged_world_def)

lemma paged_world_refuses:
  "list_running_vms paged_world ''KM-PROD''
     = Raises (TypeError ''Parameter project value KM-PROD does not match the pattern'')"
  by (simp add: list_running_vms_def paged_world_def)

text \<open>
  Claim C6 as stated fails: a POST with a project id that is not in the list of six gets a
  result computed for it.
\<close>

theorem index_unlisted_project:
  "''km-staging'' \<notin> set app_PROJECTS
   \<and> fst (index paged_world (Some ''km-staging'') state0)
       = Returns \<lparr>tmpl_projects = app_PROJECTS,
                  tmpl_result =
                    Some \<lparr>result_project = ''km-staging'',
                          result_cpu_avg = ''N/A'',
                          result_mem_avg = ''N/A'',
                          result_vm_count = 2,
                          result_instances = []\<rparr>\<rparr>"
  by (simp add: app_PROJECTS_def index_def paged_world_cpu_avg paged_world_mem_avg
      paged_world_running paged_world_breakdown and_then_simps py_eq_self_def)

theorem index_result_iff_calls_return_witness:
  "index paged_world None state0
     = (Returns \<lparr>tmpl_projects = app_PROJECTS, tmpl_result = None\<rparr>, state0)
   \<and> fst (get_project_cpu_avg paged_world ''km-dev-434106'' state0) = Returns NaN
   \<and> fst (get_project_mem_avg paged_world ''km-dev-434106'' (tick state0)) = Returns NaN
   \<and> list_running_vms paged_world ''km-dev-434106'' = Returns (2, map vm_of [web1, web2])
   \<and> fst (get_per_instance_breakdown paged_world ''km-dev-434106'' (tick (tick state0)))
       = Returns []
   \<and> fst (index paged_world (Some ''km-dev-434106'') state0)
       = Returns \<lparr>tmpl_projects = app_PROJECTS,
                  tmpl_result =
                    Some \<lparr>result_project = ''km-dev-434106'',
                          result_cpu_avg = ''N/A'',
                          result_mem_avg = ''N/A'',
                          result_vm_count = 2,
                          result_instances = []\<rparr>\<rparr>
   \<and> list_running_vms paged_world ''KM-PROD''
       = Raises (TypeError ''Parameter project value KM-PROD does not match the pattern'')
   \<and> fst (index paged_world (Some ''KM-PROD'') state0)
       = Raises (TypeError ''Parameter project value KM-PROD does not match the pattern'')"
proof -
  have c: "fst (get_project_cpu_avg paged_world ''km-dev-434106'' state0) = Returns NaN"
    by (simp add: paged_world_cpu_avg)
  have m: "fst (get_project_mem_avg paged_world ''km-dev-434106'' (tick state0)) = Returns NaN"
    by (simp add: paged_world_mem_avg)
  have l: "list_running_vms paged_world ''km-dev-434106'' = Returns (2, map vm_of [web1, web2])"
    by (simp add: paged_world_running)
  have b: "fst (get_per_instance_breakdown paged_world ''km-dev-434106'' (tick (tick state0)))
             = Returns []"
    by (simp add: paged_world_breakdown)
  have "fst (index paged_world (Some ''KM-PROD'') state0)
          = Raises (TypeError ''Parameter project value KM-PROD does not match the pattern'')"
    by (simp add: index_outcome paged_world_cpu_avg paged_world_mem_avg paged_world_refuses)
  then show ?thesis
    using index_result_iff_calls_return
            [of None paged_world state0 "''km-dev-434106''" NaN NaN 2 "map vm_of [web1, web2]"
               "[]"]
      c m l b paged_world_refuses
    by (simp add: py_eq_self_def)
qed
section \<open>Two runs of the report\<close>

lemma print_emit: "print l s = emit [l] s"
  by (simp add: print_def emit_def)

lemma emit_emit: "emit ls (emit ms s) = emit (ms @ ls) s"
  by (simp add: emit_def)

lemma framedI:
  "(\<And>s. f s = (r, s\<lparr>clock_reads := clock_reads s + k, stdout := stdout s @ out\<rparr>)) \<Longrightarrow> framed f"
  unfolding framed_def by blast

lemma framed_emit: "framed (\<lambda>s. (r, emit ls s))"
  by (rule framedI [where k = 0 and out = ls]) (simp add: emit_def)

lemma framed_return: "framed (\<lambda>s. (r, s))"
  by (rule framedI [where k = 0 and out = "[]"]) simp

lemma framed_pre_emit:
  assumes "framed f"
  shows "framed (\<lambda>s. f (emit ls s))"
proof -
  from assms obtain r k out where
    f: "\<And>s. f s = (r, s\<lparr>clock_reads := clock_reads s + k, stdout := stdout s @ out\<rparr>)"
    unfolding framed_def by blast
  show ?thesis
    by (rule framedI [where r = r and k = k and out = "ls @ out"]) (simp add: f emit_def)
qed

lemma framed_and_then:
  assumes "framed m" and "\<And>a. framed (f a)"
  shows "framed (\<lambda>s. and_then (m s) f)"
proof -
  from assms(1) obtain r k out where
    m: "\<And>s. m s = (r, s\<lparr>clock_reads := clock_reads s + k, stdout := stdout s @ out\<rparr>)"
    unfolding framed_def by blast
  show ?thesis
  proof (cases r)
    case (Returns a)
    from assms(2) [of a] obtain r' k' out' where
      f: "\<And>s. f a s = (r', s\<lparr>clock_reads := clock_reads s + k', stdout := stdout s @ out'\<rparr>)"
      unfolding framed_def by blast
    show ?thesis
      by (rule framedI [where r = r' and k = "k + k'" and out = "out @ out'"])
         (simp add: m Returns and_then_simps f)
  next
    case (Raises e)
    show ?thesis
      by (rule framedI [where r = "Raises e" and k = k and out = out])
         (simp add: m Raises and_then_simps)
  next
    case Hangs
    show ?thesis
      by (rule framedI [where r = Hangs and k = k and out = out])
         (simp add: m Hangs and_then_simps)
  qed
qed

lemma framed_if: "framed f \<Longrightarrow> framed g \<Longrightarrow> framed (\<lambda>s. if c then f s else g s)"
  by (cases c) simp_all

lemma framed_case_prod: "(\<And>a b. framed (f a b)) \<Longrightarrow> framed (case p of (a, b) \<Rightarrow> f a b)"
  by (cases p) simp

lemma tick_shape: "tick s = s\<lparr>clock_reads := clock_reads s + 1, stdout := stdout s @ []\<rparr>"
  by (simp add: tick_def)

lemma fst_ts_request_common_fixed:
  "\<forall>n. utcnow w n = t \<Longrightarrow>
   fst (ts_request_common w project_id metric_type s)
   = fst (ts_request_common w project_id metric_type state0)"
  by (simp add: ts_request_common_def now_interval_def Let_def)

lemma framed_get_project_cpu_avg:
  assumes "\<forall>n. utcnow w n = t"
  shows "framed (get_project_cpu_avg w project_id)"
proof (rule framedI [where k = 1 and out = "[]"
      and r = "fst (get_project_cpu_avg w project_id state0)"])
  fix s
  have "fst (get_project_cpu_avg w project_id s) = fst (get_project_cpu_avg w project_id state0)"
    using fst_ts_request_common_fixed [OF assms, of project_id
        "''compute.googleapis.com/instance/cpu/utilization''" s]
    by (simp add: get_project_cpu_avg_result)
  then show "get_project_cpu_avg w project_id s =
         (fst (get_project_cpu_avg w project_id state0),
          s\<lparr>clock_reads := clock_reads s + 1, stdout := stdout s @ []\<rparr>)"
    using get_project_cpu_avg_pair [of w project_id s] by (simp add: tick_shape)
qed

lemma framed_get_project_mem_avg:
  assumes "\<forall>n. utcnow w n = t"
  shows "framed (get_project_mem_avg w project_id)"
proof (rule framedI [where k = 1 and out = "[]"
      and r = "fst (get_project_mem_avg w project_id state0)"])
  fix s
  have "fst (get_project_mem_avg w project_id s) = fst (get_project_mem_avg w project_id state0)"
    using fst_ts_request_common_fixed [OF assms, of project_id
        "''agent.googleapis.com/memory/percent_used''" s]
    by (simp add: get_project_mem_avg_result)
  then show "get_project_mem_avg w project_id s =
         (fst (get_project_mem_avg w project_id state0),
          s\<lparr>clock_reads := clock_reads s + 1, stdout := stdout s @ []\<rparr>)"
    using get_project_mem_avg_pair [of w project_id s] by (simp add: tick_shape)
qed

lemma framed_get_per_instance_breakdown:
  assumes "\<forall>n. utcnow w n = t"
  shows "framed (get_per_instance_breakdown w project_id)"
proof (rule framedI [where k = 1 and out = "[]"
      and r = "fst (get_per_instance_breakdown w project_id state0)"])
  fix s
  have "breakdown_fetch w project_id s metric_type
          = breakdown_fetch w project_id state0 metric_type" for metric_type
    using assms by (simp add: breakdown_fetch_def)
  then have "fst (get_per_instance_breakdown w project_id s)
               = fst (get_per_instance_breakdown w project_id state0)"
    by (simp only: breakdown_result)
  then show "get_per_instance_breakdown w project_id s =
         (fst (get_per_instance_breakdown w project_id state0),
          s\<lparr>clock_reads := clock_reads s + 1, stdout := stdout s @ []\<rparr>)"
    using get_per_instance_breakdown_pair [of w project_id s] by (simp add: tick_shape)
qed

lemma framed_try_cpu_avg:
  assumes "\<forall>n. utcnow w n = t"
  shows "framed (try_cpu_avg w project_id)"
proof -
  from framed_get_project_cpu_avg [OF assms, of project_id] obtain r k out where
    g: "\<And>s. get_project_cpu_avg w project_id s
           = (r, s\<lparr>clock_reads := clock_reads s + k, stdout := stdout s @ out\<rparr>)"
    unfolding framed_def by blast
  show ?thesis
  proof (cases "\<exists>e. r = Raises (GoogleAPICallError e)")
    case True
    then obtain e where r: "r = Raises (GoogleAPICallError e)" by blast
    show ?thesis
      by (rule framedI [where r = "Returns NaN" and k = k
            and out = "out @ [''[!] CPU query failed for '' @ project_id @ '': '' @ e]"])
         (simp add: try_cpu_avg_def g r print_def)
  next
    case False
    show ?thesis
      by (rule framedI [where r = r and k = k and out = out])
         (use False in \<open>simp add: try_cpu_avg_def g split: outcome.split error.split\<close>)
  qed
qed

lemma framed_try_mem_avg:
  assumes "\<forall>n. utcnow w n = t"
  shows "framed (try_mem_avg w project_id)"
proof -
  from framed_get_project_mem_avg [OF assms, of project_id] obtain r k out where
    g: "\<And>s. get_project_mem_avg w project_id s
           = (r, s\<lparr>clock_reads := clock_reads s + k, stdout := stdout s @ out\<rparr>)"
    unfolding framed_def by blast
  show ?thesis
  proof (cases "\<exists>e. r = Raises (GoogleAPICallError e)")
    case True
    then obtain e where r: "r = Raises (GoogleAPICallError e)" by blast
    show ?thesis
      by (rule framedI [where r = "Returns NaN" and k = k
            and out = "out @ [''[!] Memory query failed for '' @ project_id @ '': '' @ e]"])
         (simp add: try_mem_avg_def g r print_def)
  next
    case False
    show ?thesis
      by (rule framedI [where r = r and k = k and out = out])
         (use False in \<open>simp add: try_mem_avg_def g split: outcome.split error.split\<close>)
  qed
qed

lemma framed_try_list_running_vms: "framed (try_list_running_vms w project_id)"
proof (cases "\<exists>e. list_running_vms w project_id = Raises (HttpError e)")
  case True
  then obtain e where r: "list_running_vms w project_id = Raises (HttpError e)" by blast
  show ?thesis
    by (rule framedI [where r = "Returns (0, [])" and k = 0
          and out = "[''[!] VM list failed for '' @ project_id @ '': '' @ e]"])
       (simp add: try_list_running_vms_def r print_def)
next
  case False
  show ?thesis
    by (rule framedI [where r = "list_running_vms w project_id" and k = 0 and out = "[]"])
       (use False in \<open>simp add: try_list_running_vms_def split: outcome.split error.split\<close>)
qed

lemma foldl_emit:
  "foldl (\<lambda>s r. emit [f r] s) s rows = emit (map f rows) s"
  by (induction rows arbitrary: s) (simp_all add: emit_def)

lemma print_rows_emit:
  "print_rows rows s =
     emit (if rows = [] then [''No per-instance metrics found (ensure Ops Agent is installed).'']
           else table_header # map table_line (sorted_rows rows)) s"
  by (simp add: print_rows_def print_emit foldl_emit emit_emit)

lemma framed_run_for_project:
  assumes "\<forall>n. utcnow w n = t"
  shows "framed (run_for_project w project_id)"
  unfolding run_for_project_def Let_def print_rows_emit print_emit emit_emit
  by (intro framed_and_then framed_try_cpu_avg [OF assms] framed_try_mem_avg [OF assms]
      framed_try_list_running_vms framed_case_prod framed_if framed_emit
      framed_pre_emit [OF framed_get_per_instance_breakdown [OF assms]])

text \<open>
  Claim C9. With a clock that shows the same value at every reading, and the upstream
  services answering each request as the world fixes it, two invocations of
  \<open>run_for_project\<close> for the same project, started in whatever states (the second one
  possibly in the state the first one left), have the same outcome and print the same
  lines.
\<close>

theorem report_deterministic:
  assumes "\<forall>n. utcnow w n = t"
  shows "fst (run_for_project w project_id s) = fst (run_for_project w project_id s')
         \<and> (\<exists>out. stdout (snd (run_for_project w project_id s)) = stdout s @ out
                 \<and> stdout (snd (run_for_project w project_id s')) = stdout s' @ out)"
proof -
  from framed_run_for_project [OF assms, of project_id] obtain r k out where
    "\<And>s. run_for_project w project_id s
            = (r, s\<lparr>clock_reads := clock_reads s + k, stdout := stdout s @ out\<rparr>)"
    unfolding framed_def by blast
  then show ?thesis by simp
qed

theorem report_deterministic_witness:
  "(\<forall>n. utcnow breakdown_world n = 1700000000000000)
   \<and> fst (run_for_project breakdown_world ''km-prod'' state0)
       = fst (run_for_project breakdown_world ''km-prod''
                (snd (run_for_project breakdown_world ''km-prod'' state0)))
   \<and> (\<exists>out. stdout (snd (run_for_project breakdown_world ''km-prod'' state0))
               = stdout state0 @ out
            \<and> stdout (snd (run_for_project breakdown_world ''km-prod''
                              (snd (run_for_project breakdown_world ''km-prod'' state0))))
               = stdout (snd (run_for_project breakdown_world ''km-prod'' state0)) @ out)"
proof -
  have fixed: "\<forall>n. utcnow breakdown_world n = 1700000000000000"
    by (simp add: breakdown_world_def)
  show ?thesis
    using report_deterministic [OF fixed, of "''km-prod''" state0
        "snd (run_for_project breakdown_world ''km-prod'' state0)"] fixed
    by blast
qed

section \<open>The command-line batch\<close>

lemma str_int_0: "str_int 0 = ''0''"
  by (simp add: str_int_def str_digits.simps digit_char_def)

lemma str_int_2: "str_int 2 = ''2''"
  by (simp add: str_int_def str_digits.simps digit_char_def)

text \<open>The first project of the batch: no series, no instances, nothing raised.\<close>

lemma failing_first:
  "run_for_project failing_world ''km-prod'' s =
     (Returns (),
      emit [CHR 0x0A # ''=== GCP Project Health (last 10 minutes) ==='',
            ''Project: km-prod'',
            ''Average CPU Utilization: N/A'',
            ''Average Memory Used: N/A'',
            ''RUNNING VMs: 0''] (tick (tick s)))"
proof -
  have "fst (get_project_cpu_avg failing_world ''km-prod'' s') = Returns NaN" for s'
    by (simp add: get_project_cpu_avg_result ts_request_common_def now_interval_def Let_def
        failing_world_def)
  then have c: "get_project_cpu_avg failing_world ''km-prod'' s' = (Returns NaN, tick s')" for s'
    by (metis get_project_cpu_avg_pair)
  have "fst (get_project_mem_avg failing_world ''km-prod'' s') = Returns NaN" for s'
    by (simp add: get_project_mem_avg_result ts_request_common_def now_interval_def Let_def
        failing_world_def)
  then have m: "get_project_mem_avg failing_world ''km-prod'' s' = (Returns NaN, tick s')" for s'
    by (metis get_project_mem_avg_pair)
  have l: "list_running_vms failing_world ''km-prod'' = Returns (0, [])"
    by (simp add: list_running_vms_def failing_world_def has_next_def scan_running_def
        resp_items_def)
  show ?thesis
    by (simp add: run_for_project_def try_cpu_avg_def try_mem_avg_def try_list_running_vms_def
        c m l and_then_simps Let_def cpu_line_def mem_line_def py_eq_self_def str_int_0
        print_def emit_def tick_def)
qed

text \<open>
  The second project: the errors of the two project-wide queries are caught, the listing
  finds two running instances, and the error of the breakdown leaves \<open>run_for_project\<close>.
\<close>

lemma failing_second:
  "run_for_project failing_world ''km-prod-cn-443607'' s =
     (Raises (GoogleAPICallError ''403 Permission denied''),
      emit [''[!] CPU query failed for km-prod-cn-443607: 403 Permission denied'',
            ''[!] Memory query failed for km-prod-cn-443607: 403 Permission denied'',
            CHR 0x0A # ''=== GCP Project Health (last 10 minutes) ==='',
            ''Project: km-prod-cn-443607'',
            ''Average CPU Utilization: N/A'',
            ''Average Memory Used: N/A'',
            ''RUNNING VMs: 2'',
            CHR 0x0A # ''-- Per-instance (avg of last 10m) --''] (tick (tick (tick s))))"
proof -
  have "fst (get_project_cpu_avg failing_world ''km-prod-cn-443607'' s')
          = Raises (GoogleAPICallError ''403 Permission denied'')" for s'
    by (simp add: get_project_cpu_avg_result ts_request_common_def now_interval_def Let_def
        failing_world_def)
  then have c: "get_project_cpu_avg failing_world ''km-prod-cn-443607'' s'
                  = (Raises (GoogleAPICallError ''403 Permission denied''), tick s')" for s'
    by (metis get_project_cpu_avg_pair)
  have "fst (get_project_mem_avg failing_world ''km-prod-cn-443607'' s')
          = Raises (GoogleAPICallError ''403 Permission denied'')" for s'
    by (simp add: get_project_mem_avg_result ts_request_common_def now_interval_def Let_def
        failing_world_def)
  then have m: "get_project_mem_avg failing_world ''km-prod-cn-443607'' s'
                  = (Raises (GoogleAPICallError ''403 Permission denied''), tick s')" for s'
    by (metis get_project_mem_avg_pair)
  have l: "list_running_vms failing_world ''km-prod-cn-443607''
             = Returns (2, map vm_of [web1, web2])"
    by (simp add: list_running_vms_def failing_world_def
        running_loop_paged [OF example_pages_paged] example_pages_running)
  have "fst (get_per_instance_breakdown failing_world ''km-prod-cn-443607'' s')
          = Raises (GoogleAPICallError ''403 Permission denied'')" for s'
    by (simp add: breakdown_result breakdown_fetch_def fetch_def failing_world_def)
  then have b: "get_per_instance_breakdown failing_world ''km-prod-cn-443607'' s'
                  = (Raises (GoogleAPICallError ''403 Permission denied''), tick s')" for s'
    by (metis get_per_instance_breakdown_pair)
  show ?thesis
    by (simp add: run_for_project_def try_cpu_avg_def try_mem_avg_def try_list_running_vms_def
        c m l b and_then_simps Let_def cpu_line_def mem_line_def py_eq_self_def str_int_2
        print_def emit_def tick_def)
qed

text \<open>
  Each \<open>except\<close> clause names one class: an error of another class passes the \<open>try\<close>
  block it is raised in, and so leaves \<open>run_for_project\<close> as well.
\<close>

lemma try_cpu_avg_passes:
  "get_project_cpu_avg w project_id s = (Raises (RetryError e), s')
   \<Longrightarrow> try_cpu_avg w project_id s = (Raises (RetryError e), s')"
  by (simp add: try_cpu_avg_def)

lemma try_list_running_vms_passes:
  "list_running_vms w project_id = Raises (TypeError e)
   \<Longrightarrow> try_list_running_vms w project_id s = (Raises (TypeError e), s)"
  by (simp add: try_list_running_vms_def)

lemma run_for_project_passes:
  "get_project_cpu_avg w project_id s = (Raises (RetryError e), s')
   \<Longrightarrow> run_for_project w project_id s = (Raises (RetryError e), s')"
  by (simp add: run_for_project_def try_cpu_avg_passes and_then_simps)

text \<open>
  Claim C1, evaluated on the batch scenario of the specification: \<open>--all\<close>, with the
  metrics service answering every request about the second project of the list with an
  API error, a project that has running instances. The errors of the two project-wide
  queries are caught, a message is printed for each and the averages are shown as N/A.
  But \<open>run_for_project\<close> calls \<open>get_per_instance_breakdown\<close> outside any \<open>try\<close>: the same
  error, raised again by its first metrics query, leaves \<open>run_for_project\<close> and \<open>main\<close>.
  The batch ends with that error after the table header of the second project, and the
  four remaining projects are never processed.
\<close>

theorem batch_aborted_by_breakdown_error:
  "main failing_world ''usage: main.py [-h] [--project PROJECT] [--all]''
     \<lparr>args_project = None, args_all = True\<rparr> state0
   = (Raises (GoogleAPICallError ''403 Permission denied''),
      \<lparr>clock_reads = 5,
       stdout =
         [CHR 0x0A # ''=== GCP Project Health (last 10 minutes) ==='',
          ''Project: km-prod'',
          ''Average CPU Utilization: N/A'',
          ''Average Memory Used: N/A'',
          ''RUNNING VMs: 0'',
          ''[!] CPU query failed for km-prod-cn-443607: 403 Permission denied'',
          ''[!] Memory query failed for km-prod-cn-443607: 403 Permission denied'',
          CHR 0x0A # ''=== GCP Project Health (last 10 minutes) ==='',
          ''Project: km-prod-cn-443607'',
          ''Average CPU Utilization: N/A'',
          ''Average Memory Used: N/A'',
          ''RUNNING VMs: 2'',
          CHR 0x0A # ''-- Per-instance (avg of last 10m) --'']\<rparr>)"
  by (simp add: main_def PROJECTS_def failing_first failing_second and_then_simps
      state0_def emit_def tick_def)
end
